theory Spec2Isabelle
  imports Main "HOL-Library.AList"
begin

section \<open>The Telegram bot webhook of \<^verbatim>\<open>src/app/api/telegram-bot/route.ts\<close>\<close>

text \<open>
  A shallow embedding of the webhook handler \<^verbatim>\<open>POST\<close> and of every helper it calls.

  \<^item> A JavaScript string is a \<open>string\<close>: the list of its UTF-8 bytes. Every character
    class of the source's regular expressions (\<^verbatim>\<open>\d\<close>, \<^verbatim>\<open>\w\<close>, \<^verbatim>\<open>[A-Z0-9]\<close> under the
    \<^verbatim>\<open>i\<close> flag without the \<^verbatim>\<open>u\<close> flag, \<^verbatim>\<open>[^"]\<close>) is decided on ASCII alone, so they
    read the bytes as they read UTF-16 code units. A lone surrogate takes three bytes.
    \<^verbatim>\<open>toUpperCase\<close> and \<^verbatim>\<open>toLowerCase\<close>, which follow the Unicode case mappings, are
    parameters.
  \<^item> An identifier of a user, a chat or a message and the clock are integers below
    \<open>2 ^ 53\<close>, an \<open>int\<close>. The numbers of the duration arithmetic are doubles, of the
    type \<open>number\<close>.
  \<^item> A value that may be \<^verbatim>\<open>undefined\<close> is an \<open>option\<close>.
  \<^item> A \<^verbatim>\<open>Record<string, string>\<close> is an association list in insertion order.
  \<^item> Every request to a collaborator (the Telegram HTTP API, the Airtable client) is
    an element of the type \<open>call\<close>; a function returns the list of the calls it made,
    in order. A call carries the arguments that the source computes; constant options
    (\<^verbatim>\<open>parse_mode\<close>, \<^verbatim>\<open>typecast\<close>, \<^verbatim>\<open>only_if_banned\<close>) are left out.
  \<^item> The collaborators' answers are parameters, held in the record \<open>env\<close>, and so are
    the clock, the case mappings of strings, the conversion \<^verbatim>\<open>Number\<close>, the rendering
    of dates and that of a number above \<open>2 ^ 53\<close>. An answer depends on
    the request only: it does not change while one message is handled.
  \<^item> An exception that escapes a function is the result \<open>None\<close>.
  \<^item> \<^verbatim>\<open>unbanUser\<close>, which \<^verbatim>\<open>POST\<close> never calls, and logging are not modelled.
\<close>

subsection \<open>JavaScript strings\<close>

definition truthy :: "string option \<Rightarrow> bool" where
  \<comment> \<open>\<^verbatim>\<open>undefined\<close> and the empty string are the falsy strings\<close>
  "truthy v = (case v of None \<Rightarrow> False | Some s \<Rightarrow> s \<noteq> [])"

definition lower_letters :: string where
  "lower_letters = ''abcdefghijklmnopqrstuvwxyz''"

definition upper_letters :: string where
  "upper_letters = ''ABCDEFGHIJKLMNOPQRSTUVWXYZ''"

definition digit_chars :: string where
  "digit_chars = ''0123456789''"

definition upper_char :: "char \<Rightarrow> char" where
  "upper_char c = (case map_of (zip lower_letters upper_letters) c of None \<Rightarrow> c | Some u \<Rightarrow> u)"

definition lower_char :: "char \<Rightarrow> char" where
  "lower_char c = (case map_of (zip upper_letters lower_letters) c of None \<Rightarrow> c | Some l \<Rightarrow> l)"

definition ascii_upper :: "string \<Rightarrow> string" where
  \<comment> \<open>the case folding of a regular expression under the \<^verbatim>\<open>i\<close> flag, character by
      character; it is \<^verbatim>\<open>String.prototype.toUpperCase\<close> on ASCII text only\<close>
  "ascii_upper s = map upper_char s"

definition ascii_lower :: "string \<Rightarrow> string" where
  \<comment> \<open>\<^verbatim>\<open>String.prototype.toLowerCase\<close> on ASCII text\<close>
  "ascii_lower s = map lower_char s"

definition startsWith :: "string \<Rightarrow> string \<Rightarrow> bool" where
  "startsWith s p = (take (length p) s = p)"

fun split_space :: "string \<Rightarrow> string list" where
  \<comment> \<open>\<^verbatim>\<open>s.split(' ')\<close>: never the empty list; two spaces in a row give an empty token\<close>
  "split_space [] = [[]]"
| "split_space (c # cs) =
     (if c = CHR '' '' then [] # split_space cs
      else (case split_space cs of [] \<Rightarrow> [[c]] | w # ws \<Rightarrow> (c # w) # ws))"

fun join_space :: "string list \<Rightarrow> string" where
  \<comment> \<open>\<^verbatim>\<open>xs.join(' ')\<close>\<close>
  "join_space [] = []"
| "join_space [w] = w"
| "join_space (w # ws) = w @ CHR '' '' # join_space ws"

definition is_digit :: "char \<Rightarrow> bool" where
  \<comment> \<open>\<^verbatim>\<open>\d\<close>\<close>
  "is_digit c = (c \<in> set digit_chars)"

definition is_word :: "char \<Rightarrow> bool" where
  \<comment> \<open>\<^verbatim>\<open>\w\<close>\<close>
  "is_word c = (c \<in> set lower_letters \<or> c \<in> set upper_letters \<or> is_digit c \<or> c = CHR ''_'')"

definition is_alnum_i :: "char \<Rightarrow> bool" where
  \<comment> \<open>\<^verbatim>\<open>[A-Z0-9]\<close> under the \<^verbatim>\<open>i\<close> flag\<close>
  "is_alnum_i c = (c \<in> set upper_letters \<or> c \<in> set lower_letters \<or> is_digit c)"

definition digit_value :: "char \<Rightarrow> int" where
  "digit_value c = (case map_of (zip digit_chars [0, 1, 2, 3, 4, 5, 6, 7, 8, 9]) c of
                      None \<Rightarrow> 0 | Some d \<Rightarrow> d)"

definition decimal :: "string \<Rightarrow> int" where
  \<comment> \<open>the integer that a string of decimal digits denotes\<close>
  "decimal ds = foldl (\<lambda>n c. 10 * n + digit_value c) 0 ds"

function show_nat :: "nat \<Rightarrow> string" where
  \<comment> \<open>the decimal rendering of a number in a template literal\<close>
  "show_nat n = (if n < 10 then [digit_chars ! n] else show_nat (n div 10) @ [digit_chars ! (n mod 10)])"
  by pat_completeness auto
termination
  by (relation "measure id") auto

declare show_nat.simps [simp del]

definition show_int :: "int \<Rightarrow> string" where
  "show_int i = (if i < 0 then CHR ''-'' # show_nat (nat (- i)) else show_nat (nat i))"

definition utf16_units :: "char \<Rightarrow> nat" where
  \<comment> \<open>the UTF-16 code units that start at a byte of UTF-8: none at a continuation byte,
      two at the lead byte of a four-byte sequence, else one\<close>
  "utf16_units c = (let n = (of_char c :: nat) in if 128 \<le> n \<and> n < 192 then 0 else if 240 \<le> n then 2 else 1)"

definition js_length :: "string \<Rightarrow> nat" where
  \<comment> \<open>\<^verbatim>\<open>s.length\<close>\<close>
  "js_length s = sum_list (map utf16_units s)"

definition high_surrogate :: "char \<Rightarrow> char \<Rightarrow> char \<Rightarrow> char \<Rightarrow> string" where
  \<comment> \<open>the three bytes of the high surrogate of the code point that four bytes encode\<close>
  "high_surrogate b0 b1 b2 b3 =
     (let cp = (of_char b0 mod 8) * 262144 + (of_char b1 mod 64) * 4096
               + (of_char b2 mod 64) * 64 + of_char b3 mod 64 :: int;
          hi = 55296 + (cp - 65536) div 1024
      in [CHR 0xED, char_of (128 + (hi div 64) mod 64), char_of (128 + hi mod 64)])"

fun substring0 :: "nat \<Rightarrow> string \<Rightarrow> string" where
  \<comment> \<open>\<^verbatim>\<open>s.substring(0, n)\<close>: when one code unit is left and a code point of two follows,
      the cut keeps its high surrogate\<close>
  "substring0 n [] = []"
| "substring0 n (c # cs) =
     (if utf16_units c \<le> n then c # substring0 (n - utf16_units c) cs
      else if n = 1 then (case cs of b1 # b2 # b3 # _ \<Rightarrow> high_surrogate c b1 b2 b3 | _ \<Rightarrow> [])
      else [])"

subsection \<open>JavaScript numbers\<close>

text \<open>
  The numbers of the duration arithmetic are IEEE doubles. Those that the source reaches
  there are integers, infinities or \<^verbatim>\<open>NaN\<close> (a finite double above \<open>2 ^ 53\<close> is an integer),
  and every operation rounds its exact result to the nearest double, a tie to the even
  mantissa.
\<close>

datatype number = Exactly int | Infinity | Minus_Infinity | NaN
  \<comment> \<open>\<open>Exactly n\<close> is the double whose value is the integer \<open>n\<close>\<close>

function bit_length :: "int \<Rightarrow> nat" where
  \<comment> \<open>the number of binary digits of a positive integer\<close>
  "bit_length n = (if n \<le> 0 then 0 else Suc (bit_length (n div 2)))"
  by pat_completeness auto
termination
  by (relation "measure nat") auto

declare bit_length.simps [simp del]

definition round_nat :: "int \<Rightarrow> number" where
  \<comment> \<open>the double nearest to an integer that is not negative: 53 binary digits are kept,
      a tie goes to the even mantissa, and \<open>2 ^ 1024\<close> is out of range\<close>
  "round_nat n =
     (if n \<le> 2 ^ 53 then Exactly n
      else
        (let k = bit_length n - 53; q = n div 2 ^ k; r = n mod 2 ^ k;
             m = (if 2 * r > 2 ^ k \<or> (2 * r = 2 ^ k \<and> odd q) then q + 1 else q) * 2 ^ k
         in if m \<ge> 2 ^ 1024 then Infinity else Exactly m))"

definition to_double :: "int \<Rightarrow> number" where
  \<comment> \<open>the double nearest to an integer\<close>
  "to_double i =
     (if i \<ge> 0 then round_nat i
      else (case round_nat (- i) of
              Exactly m \<Rightarrow> Exactly (- m) | Infinity \<Rightarrow> Minus_Infinity
            | Minus_Infinity \<Rightarrow> Infinity | NaN \<Rightarrow> NaN))"

definition js_times :: "number \<Rightarrow> int \<Rightarrow> number" where
  \<comment> \<open>\<^verbatim>\<open>v * k\<close> for an integer \<open>k\<close> below \<open>2 ^ 53\<close>\<close>
  "js_times v k =
     (case v of
        Exactly a \<Rightarrow> to_double (a * k)
      | Infinity \<Rightarrow> if k > 0 then Infinity else if k < 0 then Minus_Infinity else NaN
      | Minus_Infinity \<Rightarrow> if k > 0 then Minus_Infinity else if k < 0 then Infinity else NaN
      | NaN \<Rightarrow> NaN)"

definition js_plus :: "int \<Rightarrow> number \<Rightarrow> number" where
  \<comment> \<open>\<^verbatim>\<open>a + v\<close> for an integer \<open>a\<close> below \<open>2 ^ 53\<close>\<close>
  "js_plus a v = (case v of Exactly d \<Rightarrow> to_double (a + d) | _ \<Rightarrow> v)"

definition positive :: "number \<Rightarrow> bool" where
  \<comment> \<open>\<^verbatim>\<open>v > 0\<close>\<close>
  "positive v = (case v of Exactly d \<Rightarrow> d > 0 | Infinity \<Rightarrow> True | _ \<Rightarrow> False)"

definition parseInt :: "string \<Rightarrow> number" where
  \<comment> \<open>\<^verbatim>\<open>parseInt\<close> on a string of decimal digits: the double nearest to the integer they
      denote (the engine of Node.js converts the digits exactly)\<close>
  "parseInt ds = to_double (decimal ds)"

subsection \<open>The duration parser (lines 184-197)\<close>

definition match_duration :: "string \<Rightarrow> (string \<times> char) option" where
  \<comment> \<open>\<^verbatim>\<open>durationStr.match(/^(\d+)([hdm])$/)\<close>: the two groups of the match\<close>
  "match_duration s =
     (let ds = takeWhile is_digit s; rest = dropWhile is_digit s in
      (case rest of
         [u] \<Rightarrow> if ds \<noteq> [] \<and> u \<in> set ''hdm'' then Some (ds, u) else None
       | _ \<Rightarrow> None))"

definition parseMuteDuration :: "string \<Rightarrow> number" where
  "parseMuteDuration durationStr =
     (case match_duration durationStr of
        None \<Rightarrow> Exactly 0
      | Some (ds, unit) \<Rightarrow>
          (let v = parseInt ds in
           if unit = CHR ''h'' then js_times v 3600
           else if unit = CHR ''d'' then js_times v 86400
           else if unit = CHR ''m'' then js_times v 60
           else Exactly 0))"

subsection \<open>The argument parser (lines 321-329)\<close>

definition dquote :: char where
  "dquote = CHR 0x22"

definition match_arg_at :: "string \<Rightarrow> (string \<times> string \<times> string) option" where
  \<comment> \<open>a match of \<^verbatim>\<open>/(\w+)="([^"]+)"/\<close> that starts at the head of the text: the two
      groups and the text after the match. Both repetitions are greedy, and a shorter
      repetition is followed by a character of its own class, so only the longest run of
      each class can match.\<close>
  "match_arg_at s =
     (let k = takeWhile is_word s; after_k = dropWhile is_word s in
      if k = [] then None
      else (case after_k of
              e # q # r \<Rightarrow>
                if e = CHR ''='' \<and> q = dquote then
                  (let v = takeWhile (\<lambda>c. c \<noteq> dquote) r;
                       after_v = dropWhile (\<lambda>c. c \<noteq> dquote) r
                   in if v = [] \<or> after_v = [] then None else Some (k, v, tl after_v))
                else None
            | _ \<Rightarrow> None))"

lemma match_arg_at_shorter:
  assumes "match_arg_at s = Some (k, v, rest)"
  shows "length rest < length s"
proof -
  let ?r = "drop 2 (dropWhile is_word s)"
  let ?a = "dropWhile (\<lambda>c. c \<noteq> dquote) ?r"
  from assms have r: "rest = tl ?a" and ne: "?a \<noteq> []"
    by (auto simp: match_arg_at_def Let_def split: if_splits list.splits)
  have "length ?a \<le> length ?r"
    by (rule length_dropWhile_le)
  moreover have "length ?r \<le> length (dropWhile is_word s)"
    by simp
  moreover have "length (dropWhile is_word s) \<le> length s"
    by (rule length_dropWhile_le)
  moreover from ne have "length (tl ?a) < length ?a"
    by (cases ?a) auto
  ultimately show ?thesis
    using r by simp
qed

definition obj_set :: "(string \<times> string) list \<Rightarrow> string \<Rightarrow> string \<Rightarrow> (string \<times> string) list" where
  \<comment> \<open>\<^verbatim>\<open>obj[k] = v\<close> on an object created by \<^verbatim>\<open>{}\<close>. The key \<^verbatim>\<open>__proto__\<close> is the
      accessor that such an object inherits from \<^verbatim>\<open>Object.prototype\<close>; its setter
      returns without effect when the value is a string, and no own property is created.\<close>
  "obj_set obj k v = (if k = ''__proto__'' then obj else AList.update k v obj)"

definition obj_get :: "(string \<times> string) list \<Rightarrow> string \<Rightarrow> string option" where
  \<comment> \<open>\<^verbatim>\<open>obj.k\<close> for the keys the source reads, none of them inherited\<close>
  "obj_get obj k = map_of obj k"

function exec_loop :: "string \<Rightarrow> (string \<times> string) list \<Rightarrow> (string \<times> string) list" where
  \<comment> \<open>the \<^verbatim>\<open>while ((match = regex.exec(text)) !== null)\<close> loop: the first argument is
      the text from \<^verbatim>\<open>regex.lastIndex\<close> on. \<^verbatim>\<open>exec\<close> tries the start positions from
      left to right.\<close>
  "exec_loop s args =
     (if s = [] then args
      else (case match_arg_at s of
              None \<Rightarrow> exec_loop (tl s) args
            | Some (k, v, rest) \<Rightarrow> exec_loop rest (obj_set args k v)))"
  by pat_completeness auto
termination
  by (relation "measure (\<lambda>(s, args). length s)") (auto dest: match_arg_at_shorter)

definition parseCommandArgs :: "string \<Rightarrow> (string \<times> string) list" where
  "parseCommandArgs txt = exec_loop txt []"

subsection \<open>Configuration and messages (lines 5-41)\<close>

record config =
  TELEGRAM_BOT_TOKEN :: "string option"
  AIRTABLE_API_KEY :: "string option"
  AIRTABLE_BASE_ID :: "string option"
  TELEGRAM_ADMIN_ID :: "string option"
  AIRTABLE_MEMBERS_TABLE_ID :: "string option"
  AIRTABLE_EVENTS_TABLE_ID :: "string option"
  AIRTABLE_QUESTIONS_TABLE_ID :: "string option"
  TELEGRAM_GROUP_CHAT_ID :: "string option"

definition env_string :: "string option \<Rightarrow> string" where
  \<comment> \<open>the value of a variable that has been tested to be set\<close>
  "env_string v = (case v of None \<Rightarrow> [] | Some s \<Rightarrow> s)"

datatype chat_type = Private | Group | Supergroup | Channel

record telegram_user =
  user_id :: int

record chat =
  chat_id :: int
  chat_type :: chat_type

datatype message =
  Message (message_id: int) (from_user: telegram_user) (chat_of: chat)
    (text_of: "string option") (reply_to_message: "message option")

datatype request = Malformed | Update "message option"
  \<comment> \<open>\<^verbatim>\<open>req.json()\<close> throws on \<open>Malformed\<close>; \<open>Update m\<close> is a body whose \<^verbatim>\<open>message\<close> is \<open>m\<close>\<close>

subsection \<open>Collaborator calls and their answers\<close>

datatype markup = UrlButton string string
  \<comment> \<open>an inline keyboard of one button: its text and its url\<close>

datatype field_value = Str string | Flag bool

record select_params =
  filterByFormula :: "string option"
  maxRecords :: "nat option"
  sort_by :: "(string \<times> string) list"

datatype call =
    SendMessage int string "int option" "markup option"
      \<comment> \<open>\<^verbatim>\<open>chat_id\<close>, \<^verbatim>\<open>text\<close>, \<^verbatim>\<open>reply_to_message_id\<close>, \<^verbatim>\<open>reply_markup\<close> of the payload\<close>
  | GetChatMember int int
  | CreateChatInviteLink string int int
      \<comment> \<open>\<^verbatim>\<open>chat_id\<close>, \<^verbatim>\<open>member_limit\<close>, \<^verbatim>\<open>expire_date\<close>\<close>
  | BanChatMember int int
  | RestrictChatMember int int "(string \<times> bool) list" "number option"
      \<comment> \<open>\<^verbatim>\<open>chat_id\<close>, \<^verbatim>\<open>user_id\<close>, \<^verbatim>\<open>permissions\<close>, \<^verbatim>\<open>until_date\<close>\<close>
  | DeleteMessage int int
  | GetMe
  | AirtableSelect string select_params
  | AirtableCreate string "(string \<times> field_value) list"
  | AirtableUpdate string string "(string \<times> field_value) list"
      \<comment> \<open>the table, the record's id, the fields\<close>

datatype member_response = FetchThrows | NotOk | OkStatus string
  \<comment> \<open>\<^verbatim>\<open>getChatMember\<close>: the request or the reading of its body throws (also a body
      with \<^verbatim>\<open>ok\<close> and no \<^verbatim>\<open>result\<close>); a body whose \<^verbatim>\<open>ok\<close> is falsy; a body with
      \<^verbatim>\<open>ok\<close> and this \<^verbatim>\<open>result.status\<close>\<close>

datatype invite_response = InviteThrows | InviteNotOk | InviteOk "string option"

datatype me_response = MeThrows | MeResult "string option"
  \<comment> \<open>\<^verbatim>\<open>getMe\<close>: the request, the reading of its body or the reading of
      \<^verbatim>\<open>botInfo.result.username\<close> throws; or \<^verbatim>\<open>result.username\<close>, possibly undefined\<close>

record airtable_record =
  rec_id :: string
  rec_fields :: "(string \<times> string) list"

definition get_field :: "airtable_record \<Rightarrow> string \<Rightarrow> string option" where
  \<comment> \<open>\<^verbatim>\<open>record.get(name)\<close>\<close>
  "get_field r name = map_of (rec_fields r) name"

record env =
  now_seconds :: int
    \<comment> \<open>\<^verbatim>\<open>Math.floor(Date.now() / 1000)\<close>\<close>
  toUpperCase :: "string \<Rightarrow> string"
    \<comment> \<open>\<^verbatim>\<open>String.prototype.toUpperCase\<close>, which follows the Unicode case mappings\<close>
  toLowerCase :: "string \<Rightarrow> string"
    \<comment> \<open>\<^verbatim>\<open>String.prototype.toLowerCase\<close>\<close>
  days_text :: "int \<Rightarrow> string"
    \<comment> \<open>the text of \<^verbatim>\<open>Math.floor(d / 86400)\<close> in a template literal, for a double \<open>d\<close>
        above \<open>2 ^ 53\<close>\<close>
  to_Number :: "string option \<Rightarrow> int option"
    \<comment> \<open>\<^verbatim>\<open>Number(v)\<close>; \<open>None\<close> when it is no integer (\<^verbatim>\<open>NaN\<close> for \<^verbatim>\<open>undefined\<close>)\<close>
  getChatMember :: "int \<Rightarrow> int \<Rightarrow> member_response"
  createChatInviteLink :: "string \<Rightarrow> invite_response"
  getMe :: me_response
  airtable_select :: "string \<Rightarrow> select_params \<Rightarrow> airtable_record list option"
    \<comment> \<open>the records of a query on a table; \<open>None\<close> when the client throws\<close>
  rejects :: "call \<Rightarrow> bool"
    \<comment> \<open>whether a request whose answer the source does not read fails with an exception\<close>
  date_is_future :: "string option \<Rightarrow> bool"
    \<comment> \<open>\<^verbatim>\<open>new Date(d) > new Date()\<close>\<close>
  toLocaleDateString :: "string option \<Rightarrow> string"
    \<comment> \<open>\<^verbatim>\<open>new Date(d).toLocaleDateString()\<close>\<close>

subsection \<open>Effects\<close>

type_synonym 'a eff = "'a option \<times> call list"
  \<comment> \<open>the value returned (\<open>None\<close>: an exception escaped) and the calls made\<close>

definition ret :: "'a \<Rightarrow> 'a eff" where
  "ret a = (Some a, [])"

definition throw :: "'a eff" where
  "throw = (None, [])"

definition and_then :: "'a eff \<Rightarrow> ('a \<Rightarrow> 'b eff) \<Rightarrow> 'b eff" where
  \<comment> \<open>sequencing of two awaited steps: an exception of the first skips the second\<close>
  "and_then m f =
     (case m of
        (None, tr) \<Rightarrow> (None, tr)
      | (Some a, tr) \<Rightarrow> (case f a of (r, tr') \<Rightarrow> (r, tr @ tr')))"

definition fetch :: "env \<Rightarrow> call \<Rightarrow> unit eff" where
  \<comment> \<open>an awaited request outside any \<^verbatim>\<open>try\<close>, whose answer is not read\<close>
  "fetch e c = (if rejects e c then None else Some (), [c])"

definition calls :: "'a \<times> call list \<Rightarrow> call list" where
  "calls r = snd r"

subsection \<open>Core API helpers (lines 43-116)\<close>

definition sendMessage :: "config \<Rightarrow> int \<Rightarrow> string \<Rightarrow> int option \<Rightarrow> markup option \<Rightarrow> unit eff" where
  \<comment> \<open>the request is inside a \<^verbatim>\<open>try\<close>: nothing escapes. A \<^verbatim>\<open>replyToMessageId\<close> of 0 is
      falsy and is left out of the payload.\<close>
  "sendMessage cfg chatId txt replyToMessageId replyMarkup =
     (if \<not> truthy (TELEGRAM_BOT_TOKEN cfg) then ret ()
      else (Some (),
            [SendMessage chatId txt
               (case replyToMessageId of None \<Rightarrow> None | Some i \<Rightarrow> if i = 0 then None else Some i)
               replyMarkup]))"

definition isUserAdmin :: "env \<Rightarrow> int \<Rightarrow> int \<Rightarrow> bool eff" where
  \<comment> \<open>\<^verbatim>\<open>data.ok && [...].includes(data.result.status)\<close> is falsy when \<^verbatim>\<open>data.ok\<close> is\<close>
  "isUserAdmin e chatId userId =
     (if chatId > 0 then ret False
      else (Some (case getChatMember e chatId userId of
                    FetchThrows \<Rightarrow> False
                  | NotOk \<Rightarrow> False
                  | OkStatus st \<Rightarrow> st \<in> set [''creator'', ''administrator'']),
            [GetChatMember chatId userId]))"

definition createInviteLink :: "env \<Rightarrow> string \<Rightarrow> string option eff" where
  "createInviteLink e chatId =
     (Some (case createChatInviteLink e chatId of
              InviteThrows \<Rightarrow> None
            | InviteNotOk \<Rightarrow> None
            | InviteOk link \<Rightarrow> link),
      [CreateChatInviteLink chatId 1 (now_seconds e + 86400)])"

subsection \<open>Moderation actions (lines 118-182)\<close>

definition reason_text :: "string \<Rightarrow> string" where
  \<comment> \<open>\<^verbatim>\<open>reason ? `Reason: ${reason}` : ''\<close>\<close>
  "reason_text reason = (if reason = [] then [] else ''Reason: '' @ reason)"

definition banUser :: "config \<Rightarrow> env \<Rightarrow> int \<Rightarrow> int \<Rightarrow> string \<Rightarrow> unit eff" where
  "banUser cfg e chatId userId reason =
     and_then (fetch e (BanChatMember chatId userId)) (\<lambda>_.
     sendMessage cfg chatId (''User has been banned. '' @ reason_text reason) None None)"

definition durationText :: "env \<Rightarrow> number \<Rightarrow> string" where
  \<comment> \<open>line 150. Up to \<open>2 ^ 53\<close> seconds the quotient by 86400 is more than half the
      distance of two doubles below the next integer, so that \<^verbatim>\<open>Math.floor\<close> gives the
      integer quotient. The hours are taken of less than 86400 seconds.\<close>
  "durationText e durationSeconds =
     (case durationSeconds of
        Exactly d \<Rightarrow>
          if d \<ge> 86400
          then (if d \<le> 2 ^ 53 then show_int (d div 86400) else days_text e d) @ '' days''
          else show_int (d div 3600) @ '' hours''
      | Infinity \<Rightarrow> ''Infinity days''
      | Minus_Infinity \<Rightarrow> ''-Infinity hours''
      | NaN \<Rightarrow> ''NaN hours'')"

definition muteUser :: "config \<Rightarrow> env \<Rightarrow> int \<Rightarrow> int \<Rightarrow> number \<Rightarrow> string \<Rightarrow> unit eff" where
  "muteUser cfg e chatId userId durationSeconds reason =
     (let until_date = js_plus (now_seconds e) durationSeconds in
      and_then (fetch e (RestrictChatMember chatId userId [(''can_send_messages'', False)]
                             (Some until_date))) (\<lambda>_.
      sendMessage cfg chatId
        (''User has been muted for '' @ durationText e durationSeconds @ ''. '' @ reason_text reason)
        None None))"

definition unmute_permissions :: "(string \<times> bool) list" where
  "unmute_permissions =
     [(''can_send_messages'', True), (''can_send_media_messages'', True),
      (''can_send_polls'', True), (''can_send_other_messages'', True),
      (''can_add_web_page_previews'', True), (''can_change_info'', True),
      (''can_invite_users'', True), (''can_pin_messages'', True)]"

definition unmuteUser :: "config \<Rightarrow> env \<Rightarrow> int \<Rightarrow> int \<Rightarrow> unit eff" where
  "unmuteUser cfg e chatId userId =
     and_then (fetch e (RestrictChatMember chatId userId unmute_permissions None)) (\<lambda>_.
     sendMessage cfg chatId ''User has been unmuted.'' None None)"

definition deleteMessage :: "env \<Rightarrow> int \<Rightarrow> int \<Rightarrow> unit eff" where
  "deleteMessage e chatId messageId = fetch e (DeleteMessage chatId messageId)"

subsection \<open>Airtable helpers (lines 199-316)\<close>

definition getAirtableBase :: "config \<Rightarrow> bool" where
  \<comment> \<open>whether a base is returned rather than \<^verbatim>\<open>null\<close>\<close>
  "getAirtableBase cfg = (truthy (AIRTABLE_API_KEY cfg) \<and> truthy (AIRTABLE_BASE_ID cfg))"

definition js_str :: "string option \<Rightarrow> string" where
  \<comment> \<open>a value inside a template literal\<close>
  "js_str v = (case v of None \<Rightarrow> ''undefined'' | Some s \<Rightarrow> s)"

definition or_else :: "string option \<Rightarrow> string \<Rightarrow> string" where
  \<comment> \<open>\<^verbatim>\<open>v || d\<close>\<close>
  "or_else v d = (case v of None \<Rightarrow> d | Some s \<Rightarrow> if s = [] then d else s)"

record verification =
  verified :: bool
  fullName :: "string option"

definition member_formula :: "env \<Rightarrow> string \<Rightarrow> string" where
  "member_formula e aetherId = ''UPPER({aetherId}) = '' @ [dquote] @ toUpperCase e aetherId @ [dquote]"

definition verifyMember :: "config \<Rightarrow> env \<Rightarrow> string \<Rightarrow> verification eff" where
  "verifyMember cfg e aetherId =
     (if \<not> getAirtableBase cfg \<or> \<not> truthy (AIRTABLE_MEMBERS_TABLE_ID cfg)
      then ret \<lparr>verified = False, fullName = None\<rparr>
      else
        (let table = env_string (AIRTABLE_MEMBERS_TABLE_ID cfg);
             q = \<lparr>filterByFormula = Some (member_formula e aetherId), maxRecords = Some 1, sort_by = []\<rparr>
         in (Some (case airtable_select e table q of
                     None \<Rightarrow> \<lparr>verified = False, fullName = None\<rparr>
                   | Some [] \<Rightarrow> \<lparr>verified = False, fullName = None\<rparr>
                   | Some (r # _) \<Rightarrow> \<lparr>verified = True, fullName = get_field r ''fullName''\<rparr>),
             [AirtableSelect table q])))"

record upcoming_event =
  ue_title :: "string option"
  ue_registrationUrl :: "string option"
  ue_eventCode :: "string option"

definition getUpcomingEvents :: "config \<Rightarrow> env \<Rightarrow> upcoming_event list eff" where
  "getUpcomingEvents cfg e =
     (if \<not> getAirtableBase cfg \<or> \<not> truthy (AIRTABLE_EVENTS_TABLE_ID cfg) then ret []
      else
        (let table = env_string (AIRTABLE_EVENTS_TABLE_ID cfg);
             q = \<lparr>filterByFormula = Some ''IS_AFTER({Date}, TODAY())'', maxRecords = None,
                  sort_by = [(''Date'', ''asc'')]\<rparr>
         in (Some (case airtable_select e table q of
                     None \<Rightarrow> []
                   | Some records \<Rightarrow>
                       map (\<lambda>r. \<lparr>ue_title = get_field r ''Title'',
                                  ue_registrationUrl = get_field r ''Registration URL'',
                                  ue_eventCode = get_field r ''EventCode''\<rparr>) records),
             [AirtableSelect table q])))"

record admin_event =
  ae_title :: "string option"
  ae_date :: "string option"
  ae_eventCode :: "string option"
  ae_status :: string

definition getAllEventsAdmin :: "config \<Rightarrow> env \<Rightarrow> admin_event list eff" where
  "getAllEventsAdmin cfg e =
     (if \<not> getAirtableBase cfg \<or> \<not> truthy (AIRTABLE_EVENTS_TABLE_ID cfg) then ret []
      else
        (let table = env_string (AIRTABLE_EVENTS_TABLE_ID cfg);
             q = \<lparr>filterByFormula = None, maxRecords = None, sort_by = [(''Date'', ''desc'')]\<rparr>
         in (Some (case airtable_select e table q of
                     None \<Rightarrow> []
                   | Some records \<Rightarrow>
                       map (\<lambda>r. \<lparr>ae_title = get_field r ''Title'',
                                  ae_date = get_field r ''Date'',
                                  ae_eventCode = get_field r ''EventCode'',
                                  ae_status = (if date_is_future e (get_field r ''Date'')
                                               then ''Upcoming'' else ''Past'')\<rparr>) records),
             [AirtableSelect table q])))"

record submission =
  sub_submission :: "string option"
  sub_type :: "string option"
  sub_submittedAt :: "string option"
  sub_context :: string

definition getAllSubmissions :: "config \<Rightarrow> env \<Rightarrow> submission list eff" where
  "getAllSubmissions cfg e =
     (if \<not> getAirtableBase cfg \<or> \<not> truthy (AIRTABLE_QUESTIONS_TABLE_ID cfg) then ret []
      else
        (let table = env_string (AIRTABLE_QUESTIONS_TABLE_ID cfg);
             q = \<lparr>filterByFormula = None, maxRecords = None,
                  sort_by = [(''fldBBXne24R0iqZFL'', ''desc'')]\<rparr>
         in (Some (case airtable_select e table q of
                     None \<Rightarrow> []
                   | Some records \<Rightarrow>
                       map (\<lambda>r. \<lparr>sub_submission = get_field r ''fldzGkktA5C06rZzq'',
                                  sub_type = get_field r ''fldnHAjQMoMSu7qtd'',
                                  sub_submittedAt = get_field r ''fldBBXne24R0iqZFL'',
                                  sub_context = or_else (get_field r ''fldR3R8fZ6ZrHWI9e'') ''General''\<rparr>)
                         records),
             [AirtableSelect table q])))"

definition logSubmission :: "config \<Rightarrow> env \<Rightarrow> int \<Rightarrow> string \<Rightarrow> string \<Rightarrow> string \<Rightarrow> bool eff" where
  \<comment> \<open>the last argument is \<^verbatim>\<open>context\<close>, which the source defaults to \<^verbatim>\<open>'General'\<close>\<close>
  "logSubmission cfg e telegramUserId submissionText type context =
     (if \<not> getAirtableBase cfg \<or> \<not> truthy (AIRTABLE_QUESTIONS_TABLE_ID cfg) then ret False
      else
        (let c = AirtableCreate (env_string (AIRTABLE_QUESTIONS_TABLE_ID cfg))
                   [(''fldzGkktA5C06rZzq'', Str submissionText),
                    (''fldnHAjQMoMSu7qtd'', Str type),
                    (''fld75Mt7o7JJj57Oi'', Str (show_int telegramUserId)),
                    (''fldR3R8fZ6ZrHWI9e'', Str context)]
         in (Some (\<not> rejects e c), [c])))"

subsection \<open>Event management (lines 331-394)\<close>

record action_result =
  success :: bool
  message :: string

definition check_mark :: string where
  \<comment> \<open>U+2705\<close>
  "check_mark = [CHR 0xE2, CHR 0x9C, CHR 0x85]"

definition missing_fields_message :: string where
  "missing_fields_message =
     ''Missing required fields. Please provide at least `title`, `date` (YYYY-MM-DD), and `code`.''"

definition createEvent :: "config \<Rightarrow> env \<Rightarrow> (string \<times> string) list \<Rightarrow> action_result eff" where
  "createEvent cfg e args =
     (if \<not> getAirtableBase cfg \<or> \<not> truthy (AIRTABLE_EVENTS_TABLE_ID cfg)
      then ret \<lparr>success = False, message = ''Airtable for events not configured.''\<rparr>
      else
        (let title = obj_get args ''title''; date = obj_get args ''date'';
             description = obj_get args ''description''; link = obj_get args ''link'';
             code = obj_get args ''code''
         in if \<not> truthy title \<or> \<not> truthy date \<or> \<not> truthy code
            then ret \<lparr>success = False, message = missing_fields_message\<rparr>
            else
              (let c = AirtableCreate (env_string (AIRTABLE_EVENTS_TABLE_ID cfg))
                         [(''Title'', Str (env_string title)),
                          (''Date'', Str (env_string date)),
                          (''Description'', Str (or_else description [])),
                          (''Registration URL'', Str (or_else link [])),
                          (''EventCode'', Str (toUpperCase e (env_string code))),
                          (''Published'', Flag True)]
               in (Some (if rejects e c
                         then \<lparr>success = False, message = ''Failed to create event in Airtable.''\<rparr>
                         else \<lparr>success = True,
                               message = check_mark @ '' Event '' @ [dquote] @ env_string title @ [dquote]
                                 @ '' created successfully with code `''
                                 @ toUpperCase e (env_string code) @ ''`.''\<rparr>),
                   [c]))))"

definition event_formula :: "env \<Rightarrow> string \<Rightarrow> string" where
  "event_formula e eventCode = ''UPPER({EventCode}) = '' @ [dquote] @ toUpperCase e eventCode @ [dquote]"

definition fieldsToUpdate :: "env \<Rightarrow> (string \<times> string) list \<Rightarrow> (string \<times> field_value) list" where
  \<comment> \<open>lines 377-385\<close>
  "fieldsToUpdate e args =
     (if truthy (obj_get args ''title'') then [(''Title'', Str (env_string (obj_get args ''title'')))] else [])
     @ (if truthy (obj_get args ''date'') then [(''Date'', Str (env_string (obj_get args ''date'')))] else [])
     @ (if truthy (obj_get args ''description'')
        then [(''Description'', Str (env_string (obj_get args ''description'')))] else [])
     @ (if truthy (obj_get args ''link'')
        then [(''Registration URL'', Str (env_string (obj_get args ''link'')))] else [])
     @ (if truthy (obj_get args ''status'')
           \<and> toLowerCase e (env_string (obj_get args ''status'')) = ''closed''
        then [(''Published'', Flag False)] else [])"

definition updateEvent :: "config \<Rightarrow> env \<Rightarrow> string \<Rightarrow> (string \<times> string) list \<Rightarrow> action_result eff" where
  \<comment> \<open>\<^verbatim>\<open>Object.keys(args).length === 0\<close> is \<open>args = []\<close>\<close>
  "updateEvent cfg e eventCode args =
     (if \<not> getAirtableBase cfg \<or> \<not> truthy (AIRTABLE_EVENTS_TABLE_ID cfg)
      then ret \<lparr>success = False, message = ''Airtable for events not configured.''\<rparr>
      else if args = [] then ret \<lparr>success = False, message = ''No fields provided to update.''\<rparr>
      else
        (let table = env_string (AIRTABLE_EVENTS_TABLE_ID cfg);
             q = \<lparr>filterByFormula = Some (event_formula e eventCode), maxRecords = Some 1, sort_by = []\<rparr>
         in (case airtable_select e table q of
               None \<Rightarrow> (Some \<lparr>success = False, message = ''Failed to update event.''\<rparr>,
                         [AirtableSelect table q])
             | Some [] \<Rightarrow>
                 (Some \<lparr>success = False,
                        message = ''Event with code `'' @ toUpperCase e eventCode @ ''` not found.''\<rparr>,
                  [AirtableSelect table q])
             | Some (r # _) \<Rightarrow>
                 (let c = AirtableUpdate table (rec_id r) (fieldsToUpdate e args)
                  in (Some (if rejects e c
                            then \<lparr>success = False, message = ''Failed to update event.''\<rparr>
                            else \<lparr>success = True,
                                  message = check_mark @ '' Event `'' @ toUpperCase e eventCode
                                    @ ''` updated successfully.''\<rparr>),
                      [AirtableSelect table q, c])))))"

subsection \<open>The verification handler (lines 398-434)\<close>

definition aether_at :: "string \<Rightarrow> bool" where
  \<comment> \<open>a match of \<^verbatim>\<open>/AETH-?[A-Z0-9]{4,}/i\<close> that starts at the head of the text. A hyphen
      is no character of the class, so the optional hyphen is taken whenever it is there.\<close>
  "aether_at s =
     (case s of
        a # e # t # h # r \<Rightarrow>
          upper_char a = CHR ''A'' \<and> upper_char e = CHR ''E'' \<and> upper_char t = CHR ''T''
          \<and> upper_char h = CHR ''H''
          \<and> 4 \<le> length (takeWhile is_alnum_i
                 (case r of [] \<Rightarrow> r | c # cs \<Rightarrow> if c = CHR ''-'' then cs else r))
      | _ \<Rightarrow> False)"

fun aether_test :: "string \<Rightarrow> bool" where
  \<comment> \<open>\<^verbatim>\<open>/AETH-?[A-Z0-9]{4,}/i.test(s)\<close>: a match at some start position\<close>
  "aether_test [] = False"
| "aether_test (c # cs) = (aether_at (c # cs) \<or> aether_test cs)"

definition cross_mark :: string where
  \<comment> \<open>U+274C\<close>
  "cross_mark = [CHR 0xE2, CHR 0x9D, CHR 0x8C]"

definition successMessage :: "string \<Rightarrow> string" where
  "successMessage name =
     check_mark @ '' Verification successful! Welcome, '' @ name @ ''.\<newline>\<newline>''
     @ ''*Here's what you can do:*\<newline>\<newline>''
     @ ''/events - View upcoming events.\<newline>''
     @ ''/ask [your question] - Ask a general question to the community.\<newline>''
     @ ''/asklive [event_code] [your question] - Ask a question during a live event.\<newline>''
     @ ''/suggest [your idea] - Submit a suggestion.''"

definition failureMessage :: string where
  "failureMessage =
     cross_mark @ '' Verification failed. Please check your Aether ID and try again. You can get your ID by joining at aether.build/join.''"

definition handleVerification :: "config \<Rightarrow> env \<Rightarrow> int \<Rightarrow> string option \<Rightarrow> unit eff" where
  "handleVerification cfg e chatId aetherId =
     (if \<not> truthy aetherId then sendMessage cfg chatId ''Please provide your Aether ID.'' None None
      else if \<not> aether_test (env_string aetherId) then
        sendMessage cfg chatId
          ''Please provide your Aether ID in the format `AETH-XX12` or `AETHADM-XXXXXX`.'' None None
      else
        and_then (verifyMember cfg e (env_string aetherId)) (\<lambda>result.
        if verified result \<and> truthy (fullName result) then
          and_then
            (if truthy (TELEGRAM_GROUP_CHAT_ID cfg) then
               and_then (createInviteLink e (env_string (TELEGRAM_GROUP_CHAT_ID cfg))) (\<lambda>inviteLink.
               ret (if truthy inviteLink
                    then Some (UrlButton ''Join the Community Group'' (env_string inviteLink))
                    else None))
             else ret None) (\<lambda>replyMarkup.
          sendMessage cfg chatId (successMessage (env_string (fullName result))) None replyMarkup)
        else sendMessage cfg chatId failureMessage None None))"

subsection \<open>The main handler (lines 437-672)\<close>

datatype flow = Return | Next
  \<comment> \<open>\<^verbatim>\<open>return NextResponse.json({ status: 'ok' })\<close> inside a block, or falling out of it\<close>

datatype response = Ok_200 | Error_500 string

definition command_of :: "string \<Rightarrow> string" where
  \<comment> \<open>\<^verbatim>\<open>const [command, ...args] = text.split(' ')\<close>\<close>
  "command_of txt = (case split_space txt of [] \<Rightarrow> [] | c # _ \<Rightarrow> c)"

definition args_of :: "string \<Rightarrow> string list" where
  "args_of txt = (case split_space txt of [] \<Rightarrow> [] | _ # as \<Rightarrow> as)"

definition first_arg :: "string list \<Rightarrow> string option" where
  \<comment> \<open>\<^verbatim>\<open>args[0]\<close>, and the first name of \<^verbatim>\<open>const [x, ...rest] = args\<close>\<close>
  "first_arg as = (case as of [] \<Rightarrow> None | a # _ \<Rightarrow> Some a)"

definition moderation_commands :: "string list" where
  "moderation_commands = [''/ban'', ''/mute'', ''/unmute'', ''/del'']"

definition private_only_commands :: "string list" where
  "private_only_commands = [''/events'', ''/ask'', ''/asklive'', ''/suggest'']"

definition adminEventCommands :: "string list" where
  "adminEventCommands =
     [''/createevent'', ''/updateevent'', ''/closeevent'', ''/listevents'', ''/registrations'']"

definition moderation_switch ::
  "config \<Rightarrow> env \<Rightarrow> message \<Rightarrow> string \<Rightarrow> string list \<Rightarrow> unit eff" where
  \<comment> \<open>the \<^verbatim>\<open>switch (command)\<close> of lines 462-491. \<^verbatim>\<open>parseMuteDuration(args[0])\<close> with no
      argument calls \<^verbatim>\<open>undefined.match\<close>, a \<^verbatim>\<open>TypeError\<close>.\<close>
  "moderation_switch cfg e m command as =
     (let cid = chat_id (chat_of m); mid = message_id m;
          repliedToUser = map_option from_user (reply_to_message m);
          repliedToMessageId = map_option message_id (reply_to_message m)
      in
      if command = ''/ban'' \<or> command = ''/mute'' then
        (case repliedToUser of
           None \<Rightarrow> ret ()
         | Some u \<Rightarrow>
             and_then (isUserAdmin e cid (user_id u)) (\<lambda>isTargetAdmin.
             if isTargetAdmin then
               sendMessage cfg cid ''This command cannot be used on an administrator.'' (Some mid) None
             else if command = ''/ban'' then banUser cfg e cid (user_id u) (join_space as)
             else
               (case first_arg as of
                  None \<Rightarrow> throw
                | Some a0 \<Rightarrow>
                    (let duration = parseMuteDuration a0 in
                     if positive duration then muteUser cfg e cid (user_id u) duration (join_space (drop 1 as))
                     else sendMessage cfg cid ''Invalid duration. Use format like `1h`, `2d`.''
                            (Some mid) None))))
      else if command = ''/unmute'' then
        (case repliedToUser of None \<Rightarrow> ret () | Some u \<Rightarrow> unmuteUser cfg e cid (user_id u))
      else if command = ''/del'' then
        and_then
          (case repliedToMessageId of
             None \<Rightarrow> ret ()
           | Some i \<Rightarrow> if i = 0 then ret () else deleteMessage e cid i) (\<lambda>_.
        deleteMessage e cid mid)
      else ret ())"

definition moderation :: "config \<Rightarrow> env \<Rightarrow> message \<Rightarrow> string \<Rightarrow> flow eff" where
  \<comment> \<open>lines 449-493; the last argument is \<^verbatim>\<open>text\<close>\<close>
  "moderation cfg e m txt =
     (if chat_type (chat_of m) \<noteq> Private \<and> startsWith txt ''/'' then
        and_then (isUserAdmin e (chat_id (chat_of m)) (user_id (from_user m))) (\<lambda>isAdmin.
        if isAdmin then
          (if reply_to_message m = None \<and> command_of txt \<in> set moderation_commands then
             and_then
               (sendMessage cfg (chat_id (chat_of m))
                  ''This command must be used as a reply to a user's message.''
                  (Some (message_id m)) None) (\<lambda>_.
             ret Return)
           else
             and_then (moderation_switch cfg e m (command_of txt) (args_of txt)) (\<lambda>_.
             ret Next))
        else ret Next)
      else ret Next)"

definition redirect_text :: string where
  "redirect_text = ''To keep our chat clean, please use this command in a private message with me.''"

definition redirect :: "config \<Rightarrow> env \<Rightarrow> message \<Rightarrow> flow eff" where
  \<comment> \<open>lines 502-516: the \<^verbatim>\<open>getMe\<close> request is outside any \<^verbatim>\<open>try\<close> but that of \<^verbatim>\<open>POST\<close>\<close>
  "redirect cfg e m =
     and_then (case getMe e of MeThrows \<Rightarrow> (None, [GetMe]) | MeResult u \<Rightarrow> (Some u, [GetMe]))
       (\<lambda>botUsername.
     and_then
       (sendMessage cfg (chat_id (chat_of m)) redirect_text (Some (message_id m))
          (Some (UrlButton ''Chat with Aether Bot'' (''https://t.me/'' @ js_str botUsername)))) (\<lambda>_.
     ret Return))"

definition clipboard :: string where
  \<comment> \<open>U+1F4CB\<close>
  "clipboard = [CHR 0xF0, CHR 0x9F, CHR 0x93, CHR 0x8B]"

definition calendar :: string where
  \<comment> \<open>U+1F4C5\<close>
  "calendar = [CHR 0xF0, CHR 0x9F, CHR 0x93, CHR 0x85]"

definition memo :: string where
  \<comment> \<open>U+1F4DD\<close>
  "memo = [CHR 0xF0, CHR 0x9F, CHR 0x93, CHR 0x9D]"

definition key_emoji :: string where
  \<comment> \<open>U+1F511\<close>
  "key_emoji = [CHR 0xF0, CHR 0x9F, CHR 0x94, CHR 0x91]"

definition adminEventList :: "env \<Rightarrow> admin_event list \<Rightarrow> string" where
  \<comment> \<open>lines 552-559\<close>
  "adminEventList e evs =
     (if evs = [] then ''No events found.''
      else clipboard @ '' *All Events:*\<newline>\<newline>''
        @ concat (map (\<lambda>ev. ''*'' @ js_str (ae_title ev) @ ''*\<newline>Code: `'' @ js_str (ae_eventCode ev)
                          @ ''` | Status: *'' @ ae_status ev @ ''*\<newline>Date: ''
                          @ toLocaleDateString e (ae_date ev) @ ''\<newline>\<newline>'') evs))"

definition eventList :: "upcoming_event list \<Rightarrow> string" where
  \<comment> \<open>lines 587-594\<close>
  "eventList evs =
     (if evs = [] then ''No upcoming events right now. Check back soon!''
      else calendar @ '' *Upcoming Events:*\<newline>\<newline>''
        @ concat (map (\<lambda>ev. ''*'' @ js_str (ue_title ev) @ ''* (Code: `'' @ js_str (ue_eventCode ev)
                          @ ''`)\<newline>[Register Here]('' @ js_str (ue_registrationUrl ev)
                          @ '')\<newline>\<newline>'') evs))"

definition admin_switch ::
  "config \<Rightarrow> env \<Rightarrow> message \<Rightarrow> string \<Rightarrow> string list \<Rightarrow> flow eff" where
  \<comment> \<open>the \<^verbatim>\<open>switch (command)\<close> of lines 522-573: \<open>Next\<close> after a \<^verbatim>\<open>break\<close> and when no
      case matches\<close>
  "admin_switch cfg e m command as =
     (let cid = chat_id (chat_of m); mid = message_id m in
      if command = ''/createevent'' then
        and_then (createEvent cfg e (parseCommandArgs (join_space as))) (\<lambda>createResult.
        and_then (sendMessage cfg cid (message createResult) (Some mid) None) (\<lambda>_.
        ret Return))
      else if command = ''/updateevent'' then
        (if \<not> truthy (first_arg as) then
           and_then (sendMessage cfg cid
                (''Usage: `/updateevent <event_code> key='' @ [dquote] @ ''value'' @ [dquote] @ '' ...`'')
                None None)
             (\<lambda>_. ret Next)
         else
           and_then (updateEvent cfg e (env_string (first_arg as))
                       (parseCommandArgs (join_space (drop 1 as)))) (\<lambda>updateResult.
           and_then (sendMessage cfg cid (message updateResult) (Some mid) None) (\<lambda>_.
           ret Return)))
      else if command = ''/closeevent'' then
        (if \<not> truthy (first_arg as) then
           and_then (sendMessage cfg cid ''Usage: `/closeevent <event_code>`'' None None) (\<lambda>_. ret Next)
         else
           and_then (updateEvent cfg e (env_string (first_arg as)) [(''status'', ''closed'')])
             (\<lambda>closeResult.
           and_then (sendMessage cfg cid (message closeResult) (Some mid) None) (\<lambda>_.
           ret Return)))
      else if command = ''/listevents'' then
        and_then (getAllEventsAdmin cfg e) (\<lambda>adminEvents.
        and_then (sendMessage cfg cid (adminEventList e adminEvents) (Some mid) None) (\<lambda>_.
        ret Return))
      else if command = ''/registrations'' then
        (if \<not> truthy (first_arg as) \<or> \<not> truthy (AIRTABLE_BASE_ID cfg)
            \<or> \<not> truthy (AIRTABLE_EVENTS_TABLE_ID cfg) then
           and_then (sendMessage cfg cid ''Usage: `/registrations <event_code>`'' None None) (\<lambda>_. ret Next)
         else
           (let code = toUpperCase e (env_string (first_arg as));
                airtableLink = ''https://airtable.com/'' @ env_string (AIRTABLE_BASE_ID cfg) @ ''/''
                  @ env_string (AIRTABLE_EVENTS_TABLE_ID cfg) @ ''?filter_EventCode='' @ code
            in and_then
                 (sendMessage cfg cid
                    (''View registrations for `'' @ code @ ''` in Airtable:\<newline>\<newline>'' @ airtableLink)
                    (Some mid) None) (\<lambda>_.
               ret Return)))
      else ret Next)"

definition general_switch ::
  "config \<Rightarrow> env \<Rightarrow> message \<Rightarrow> string \<Rightarrow> string list \<Rightarrow> unit eff" where
  \<comment> \<open>the \<^verbatim>\<open>switch (command)\<close> of lines 576-638\<close>
  "general_switch cfg e m command as =
     (let cid = chat_id (chat_of m); uid = user_id (from_user m) in
      if command = ''/start'' then
        sendMessage cfg cid
          ''Welcome to the Aether Bot! Please verify your identity by sending your Aether ID (e.g., `AETH-XX12`).''
          None None
      else if command = ''/verify'' then handleVerification cfg e cid (first_arg as)
      else if command = ''/events'' then
        and_then (getUpcomingEvents cfg e) (\<lambda>events.
        sendMessage cfg cid (eventList events) None None)
      else if command = ''/ask'' then
        (if join_space as = [] then
           sendMessage cfg cid ''Usage: `/ask How do I join Horizon Studio?`'' None None
         else
           and_then (logSubmission cfg e uid (join_space as) ''Questions'' ''General'') (\<lambda>_.
           sendMessage cfg cid ''Thanks! Your question has been submitted.'' None None))
      else if command = ''/asklive'' then
        (if \<not> truthy (first_arg as) \<or> join_space (drop 1 as) = [] then
           sendMessage cfg cid
             ''Usage: `/asklive WAD25 How do you see AI impacting architecture?`'' None None
         else
           and_then (logSubmission cfg e uid (join_space (drop 1 as)) ''Questions''
                       (toUpperCase e (env_string (first_arg as)))) (\<lambda>_.
           sendMessage cfg cid
             (''Thanks! Your question for event *'' @ toUpperCase e (env_string (first_arg as))
              @ ''* has been submitted.'') None None))
      else if command = ''/suggest'' then
        (if join_space as = [] then
           sendMessage cfg cid
             ''Usage: `/suggest We should have a portfolio review session.`'' None None
         else
           and_then (logSubmission cfg e uid (join_space as) ''Suggestions'' ''General'') (\<lambda>_.
           sendMessage cfg cid ''Great idea! Your suggestion has been recorded.'' None None))
      else if chat_type (chat_of m) = Private \<and> command \<notin> set moderation_commands
              \<and> command \<notin> set adminEventCommands then
        sendMessage cfg cid ''Sorry, I don't recognize that command.'' None None
      else ret ())"

definition commands :: "config \<Rightarrow> env \<Rightarrow> message \<Rightarrow> string \<Rightarrow> unit eff" where
  \<comment> \<open>lines 496-638, for a text that starts with a slash\<close>
  "commands cfg e m txt =
     (let command = command_of txt; as = args_of txt;
          cid = chat_id (chat_of m); uid = user_id (from_user m)
      in
      if chat_type (chat_of m) \<noteq> Private \<and> command \<in> set private_only_commands then
        and_then (redirect cfg e m) (\<lambda>_. ret ())
      else
        and_then
          (if cid < 0 then isUserAdmin e cid uid
           else ret (to_Number e (TELEGRAM_ADMIN_ID cfg) = Some uid)) (\<lambda>isSenderAdmin.
        and_then (if isSenderAdmin then admin_switch cfg e m command as else ret Next) (\<lambda>fl.
        (case fl of
           Return \<Rightarrow> ret ()
         | Next \<Rightarrow> general_switch cfg e m command as))))"

definition submissions_report :: "submission list \<Rightarrow> string" where
  "submissions_report subs =
     memo @ '' *All Community Submissions:*\<newline>\<newline>''
     @ concat (map (\<lambda>sub. ''*'' @ js_str (sub_type sub) @ ''* | Context: *'' @ sub_context sub
                       @ ''* \<newline>> '' @ js_str (sub_submission sub) @ ''\<newline>\<newline>'') subs)"

definition admin_report :: "config \<Rightarrow> env \<Rightarrow> int \<Rightarrow> unit eff" where
  \<comment> \<open>lines 640-655\<close>
  "admin_report cfg e cid =
     and_then
       (sendMessage cfg cid
          (key_emoji @ '' Admin authentication successful. Fetching all submissions...'') None None) (\<lambda>_.
     and_then (getAllSubmissions cfg e) (\<lambda>submissions.
     if submissions \<noteq> [] then
       (if js_length (submissions_report submissions) > 4000 then
          and_then
            (sendMessage cfg cid ''Report is too long for one message. Sending recent entries:''
               None None) (\<lambda>_.
          sendMessage cfg cid (substring0 4000 (submissions_report submissions)) None None)
        else sendMessage cfg cid (submissions_report submissions) None None)
     else sendMessage cfg cid ''No submissions found.'' None None))"

definition free_text :: "config \<Rightarrow> env \<Rightarrow> message \<Rightarrow> string \<Rightarrow> unit eff" where
  \<comment> \<open>lines 639-660, for a text that does not start with a slash\<close>
  "free_text cfg e m txt =
     (if truthy (TELEGRAM_ADMIN_ID cfg)
         \<and> toUpperCase e txt = toUpperCase e (env_string (TELEGRAM_ADMIN_ID cfg))
      then admin_report cfg e (chat_id (chat_of m))
      else if aether_test txt then handleVerification cfg e (chat_id (chat_of m)) (Some txt)
      else if chat_type (chat_of m) = Private then
        sendMessage cfg (chat_id (chat_of m))
          ''Hi there! I can only respond to commands right now. Try `/start` to see your options.''
          None None
      else ret ())"

definition handle_message :: "config \<Rightarrow> env \<Rightarrow> message \<Rightarrow> unit eff" where
  \<comment> \<open>lines 446-661: \<^verbatim>\<open>text\<close> defaults to the empty string\<close>
  "handle_message cfg e m =
     (let txt = (case text_of m of None \<Rightarrow> [] | Some t \<Rightarrow> t) in
      and_then (moderation cfg e m txt) (\<lambda>fl.
      (case fl of
         Return \<Rightarrow> ret ()
       | Next \<Rightarrow> if startsWith txt ''/'' then commands cfg e m txt else free_text cfg e m txt)))"

definition POST :: "config \<Rightarrow> env \<Rightarrow> request \<Rightarrow> response \<times> call list" where
  \<comment> \<open>the response and the calls made; an exception inside the \<^verbatim>\<open>try\<close> gives the 500\<close>
  "POST cfg e req =
     (if \<not> truthy (TELEGRAM_BOT_TOKEN cfg) then (Error_500 ''Bot not configured.'', [])
      else
        (case req of
           Malformed \<Rightarrow> (Error_500 ''Error processing request'', [])
         | Update None \<Rightarrow> (Ok_200, [])
         | Update (Some m) \<Rightarrow>
             (case handle_message cfg e m of
                (None, tr) \<Rightarrow> (Error_500 ''Error processing request'', tr)
              | (Some _, tr) \<Rightarrow> (Ok_200, tr))))"

subsection \<open>A sample deployment\<close>

definition demo_config :: config where
  "demo_config =
     \<lparr>TELEGRAM_BOT_TOKEN = Some ''token'', AIRTABLE_API_KEY = Some ''key'',
      AIRTABLE_BASE_ID = Some ''base'', TELEGRAM_ADMIN_ID = Some ''42'',
      AIRTABLE_MEMBERS_TABLE_ID = Some ''members'', AIRTABLE_EVENTS_TABLE_ID = Some ''events'',
      AIRTABLE_QUESTIONS_TABLE_ID = Some ''questions'', TELEGRAM_GROUP_CHAT_ID = Some ''-1001''\<rparr>"

definition demo_env :: env where
  \<comment> \<open>user 1 administers every group, user 2 is a plain member, the query for user 3
      fails; the event WAD25 and the member AETH-AB12 are on record. The samples are ASCII
      texts, on which the case mappings are those of the ASCII letters, and no sample
      mutes for more than \<open>2 ^ 53\<close> seconds.\<close>
  "demo_env =
     \<lparr>now_seconds = 1700000000,
      toUpperCase = ascii_upper,
      toLowerCase = ascii_lower,
      days_text = (\<lambda>d. show_int (d div 86400)),
      to_Number = (\<lambda>v. case v of None \<Rightarrow> None
                         | Some ds \<Rightarrow> if list_all is_digit ds then Some (decimal ds) else None),
      getChatMember = (\<lambda>c u. if u = 1 then OkStatus ''administrator''
                              else if u = 2 then OkStatus ''member''
                              else if u = 3 then FetchThrows else NotOk),
      createChatInviteLink = (\<lambda>c. InviteOk (Some ''https://t.me/+invite'')),
      getMe = MeResult (Some ''aether_bot''),
      airtable_select = (\<lambda>table q.
        if table = ''events'' \<and> filterByFormula q = Some (''UPPER({EventCode}) = '' @ [dquote] @ ''WAD25'' @ [dquote])
        then Some [\<lparr>rec_id = ''recE1'',
                    rec_fields = [(''Title'', ''World Architecture Day''), (''Date'', ''2025-10-06''),
                                  (''EventCode'', ''WAD25'')]\<rparr>]
        else if table = ''members'' \<and> filterByFormula q = Some (''UPPER({aetherId}) = '' @ [dquote] @ ''AETH-AB12'' @ [dquote])
        then Some [\<lparr>rec_id = ''recM1'', rec_fields = [(''fullName'', ''Ada'')]\<rparr>]
        else Some []),
      rejects = (\<lambda>c. False),
      date_is_future = (\<lambda>d. True),
      toLocaleDateString = js_str\<rparr>"

definition group_message :: "int \<Rightarrow> string \<Rightarrow> message option \<Rightarrow> message" where
  \<comment> \<open>a message of the given user in the group -100\<close>
  "group_message uid txt reply =
     Message 7 \<lparr>user_id = uid\<rparr> \<lparr>chat_id = - 100, chat_type = Group\<rparr> (Some txt) reply"

definition private_message :: "int \<Rightarrow> string \<Rightarrow> message" where
  \<comment> \<open>a message of the given user in the private chat with the bot\<close>
  "private_message uid txt =
     Message 8 \<lparr>user_id = uid\<rparr> \<lparr>chat_id = uid, chat_type = Private\<rparr> (Some txt) None"

section \<open>Notions used in the properties\<close>

definition unit_seconds :: "char \<Rightarrow> int" where
  \<comment> \<open>the seconds of a unit character\<close>
  "unit_seconds u =
     (if u = CHR ''h'' then 3600 else if u = CHR ''d'' then 86400 else if u = CHR ''m'' then 60 else 0)"

definition rounding_example :: string where
  \<comment> \<open>\<open>2 ^ 53 + 1\<close> minutes\<close>
  "rounding_example = ''9007199254740993m''"

definition duration_shape :: "string \<Rightarrow> bool" where
  \<comment> \<open>one or more digits followed by exactly one unit character\<close>
  "duration_shape s =
     (s \<noteq> [] \<and> butlast s \<noteq> [] \<and> list_all is_digit (butlast s) \<and> last s \<in> set ''hdm'')"

declare exec_loop.simps [simp del]

text \<open>
  The specification's words: the tokens \<^verbatim>\<open>identifier="value"\<close> found by a scan from left to
  right, none overlapping another, and the mapping they build, a later token overwriting
  an earlier one of the same key.
\<close>

function spec_tokens :: "string \<Rightarrow> (string \<times> string) list" where
  "spec_tokens s =
     (if s = [] then []
      else (case match_arg_at s of
              None \<Rightarrow> spec_tokens (tl s)
            | Some (k, v, rest) \<Rightarrow> (k, v) # spec_tokens rest))"
  by pat_completeness auto
termination
  by (relation "measure length") (auto dest: match_arg_at_shorter)

declare spec_tokens.simps [simp del]

definition put :: "(string \<rightharpoonup> string) \<Rightarrow> string \<times> string \<Rightarrow> (string \<rightharpoonup> string)" where
  \<comment> \<open>a token overwrites the value of its key\<close>
  "put m kv = m(fst kv \<mapsto> snd kv)"

definition spec_parseArgs :: "string \<Rightarrow> (string \<rightharpoonup> string)" where
  "spec_parseArgs txt = foldl put Map.empty (spec_tokens txt)"

definition proto_arg :: string where
  \<comment> \<open>the text \<^verbatim>\<open>__proto__="x"\<close>\<close>
  "proto_arg = ''__proto__='' @ [dquote] @ ''x'' @ [dquote]"

definition events_configured :: "config \<Rightarrow> bool" where
  \<comment> \<open>the Airtable credentials and the events table are set\<close>
  "events_configured cfg = (getAirtableBase cfg \<and> truthy (AIRTABLE_EVENTS_TABLE_ID cfg))"

fun is_update_record :: "call \<Rightarrow> bool" where
  \<comment> \<open>the update-record calls\<close>
  "is_update_record (AirtableUpdate table rid fs) = True"
| "is_update_record c = False"

definition event_query :: "env \<Rightarrow> string \<Rightarrow> select_params" where
  \<comment> \<open>the lookup of an event by its code, as \<^verbatim>\<open>updateEvent\<close> makes it\<close>
  "event_query e eventCode =
     \<lparr>filterByFormula = Some (event_formula e eventCode), maxRecords = Some 1, sort_by = []\<rparr>"

definition recognized_fields :: "env \<Rightarrow> (string \<times> string) list \<Rightarrow> string list" where
  \<comment> \<open>the specification's recognized fields that a mapping holds: \<^verbatim>\<open>title\<close>, \<^verbatim>\<open>date\<close>,
      \<^verbatim>\<open>description\<close>, \<^verbatim>\<open>link\<close>, and \<^verbatim>\<open>status\<close> with the value \<^verbatim>\<open>closed\<close>\<close>
  "recognized_fields e args =
     filter (\<lambda>k. obj_get args k \<noteq> None) [''title'', ''date'', ''description'', ''link'']
     @ (if map_option (toLowerCase e) (obj_get args ''status'') = Some ''closed''
        then [''status''] else [])"

definition full_event_args :: "(string \<times> string) list" where
  \<comment> \<open>a mapping with the three required fields of an event\<close>
  "full_event_args = [(''title'', ''Talk''), (''date'', ''2025-01-01''), (''code'', ''wad25'')]"

text \<open>The membership queries among the calls of a run, in order.\<close>

fun is_member_query :: "call \<Rightarrow> bool" where
  "is_member_query (GetChatMember c u) = True"
| "is_member_query c = False"

definition member_queries :: "'a \<times> call list \<Rightarrow> call list" where
  "member_queries r = filter is_member_query (calls r)"

definition sender_query :: "message \<Rightarrow> call" where
  \<comment> \<open>the membership query for the sender of a message\<close>
  "sender_query m = GetChatMember (chat_id (chat_of m)) (user_id (from_user m))"

definition target_query :: "message \<Rightarrow> message \<Rightarrow> call" where
  \<comment> \<open>the membership query for the author of the replied-to message\<close>
  "target_query m r = GetChatMember (chat_id (chat_of m)) (user_id (from_user r))"

definition query_patterns :: "message \<Rightarrow> call list list" where
  \<comment> \<open>the sequences of membership queries that the handling of one message can make\<close>
  "query_patterns m =
     [[], [sender_query m], [sender_query m, sender_query m]]
     @ (case reply_to_message m of
          None \<Rightarrow> []
        | Some r \<Rightarrow> [[sender_query m, target_query m r],
                      [sender_query m, target_query m r, sender_query m]])"

fun is_reply :: "call \<Rightarrow> bool" where
  \<comment> \<open>the messages sent to a chat\<close>
  "is_reply (SendMessage c t r k) = True"
| "is_reply c = False"

fun is_moderation_mutation :: "call \<Rightarrow> bool" where
  \<comment> \<open>the ban, restrict and delete-message calls\<close>
  "is_moderation_mutation (BanChatMember c u) = True"
| "is_moderation_mutation (RestrictChatMember c u p d) = True"
| "is_moderation_mutation (DeleteMessage c i) = True"
| "is_moderation_mutation c = False"

fun is_datastore_call :: "call \<Rightarrow> bool" where
  \<comment> \<open>the reads and writes of the datastore\<close>
  "is_datastore_call (AirtableSelect t q) = True"
| "is_datastore_call (AirtableCreate t fs) = True"
| "is_datastore_call (AirtableUpdate t i fs) = True"
| "is_datastore_call c = False"

definition redirect_reply :: "message \<Rightarrow> string option \<Rightarrow> call" where
  \<comment> \<open>the redirect reply to a message, for the bot's user name\<close>
  "redirect_reply m username =
     SendMessage (chat_id (chat_of m)) redirect_text
       (if message_id m = 0 then None else Some (message_id m))
       (Some (UrlButton ''Chat with Aether Bot'' (''https://t.me/'' @ js_str username)))"

definition member_query :: "env \<Rightarrow> string \<Rightarrow> select_params" where
  \<comment> \<open>the lookup of a member by a code, as \<^verbatim>\<open>verifyMember\<close> makes it\<close>
  "member_query e aetherId =
     \<lparr>filterByFormula = Some (member_formula e aetherId), maxRecords = Some 1, sort_by = []\<rparr>"

definition members_configured :: "config \<Rightarrow> bool" where
  \<comment> \<open>the Airtable credentials and the members table are set\<close>
  "members_configured cfg = (getAirtableBase cfg \<and> truthy (AIRTABLE_MEMBERS_TABLE_ID cfg))"

definition invalid_duration_text :: string where
  "invalid_duration_text = ''Invalid duration. Use format like `1h`, `2d`.''"

section \<open>Lemmas on effects and on the router\<close>

lemma fst_and_then:
  "fst (and_then m f) = (case fst m of None \<Rightarrow> None | Some a \<Rightarrow> fst (f a))"
  by (cases m) (auto simp: and_then_def split: option.splits prod.splits)

lemma snd_and_then:
  "snd (and_then m f) = snd m @ (case fst m of None \<Rightarrow> [] | Some a \<Rightarrow> snd (f a))"
  by (cases m) (auto simp: and_then_def split: option.splits prod.splits)

lemma and_then_Some: "and_then (Some a, tr) f = (fst (f a), tr @ snd (f a))"
  by (simp add: and_then_def split: prod.splits)

lemma and_then_None: "and_then (None, tr) f = (None, tr)"
  by (simp add: and_then_def)

lemma and_then_ret: "and_then (ret a) f = f a"
  by (simp add: and_then_def ret_def split: prod.splits)

lemma isUserAdmin_value:
  "\<exists>b. isUserAdmin e c u = (Some b, if c > 0 then [] else [GetChatMember c u]) \<and> (c > 0 \<longrightarrow> \<not> b)"
  by (auto simp: isUserAdmin_def ret_def)

lemma isUserAdmin_True:
  assumes "fst (isUserAdmin e c u) = Some True"
  shows "isUserAdmin e c u = (Some True, [GetChatMember c u])"
  using assms by (auto simp: isUserAdmin_def ret_def split: if_splits)

lemma isUserAdmin_False:
  assumes "fst (isUserAdmin e c u) = Some False" and "\<not> c > 0"
  shows "isUserAdmin e c u = (Some False, [GetChatMember c u])"
  using assms by (auto simp: isUserAdmin_def ret_def split: if_splits)

lemma isUserAdmin_True_group: "fst (isUserAdmin e c u) = Some True \<Longrightarrow> \<not> c > 0"
  by (auto simp: isUserAdmin_def ret_def split: if_splits)

lemma isUserAdmin_not_admin:
  assumes "getChatMember e c u \<noteq> OkStatus ''creator''"
    and "getChatMember e c u \<noteq> OkStatus ''administrator''"
  shows "isUserAdmin e c u = (Some False, if c > 0 then [] else [GetChatMember c u])"
  using assms by (cases "getChatMember e c u") (simp_all add: isUserAdmin_def ret_def)

lemma split_space_hd:
  "\<exists>ws. split_space s = takeWhile (\<lambda>c. c \<noteq> CHR '' '') s # ws"
  by (induction s) (auto split: list.splits)

lemma command_of_takeWhile: "command_of s = takeWhile (\<lambda>c. c \<noteq> CHR '' '') s"
  using split_space_hd [of s] by (auto simp: command_of_def)

lemma startsWith_command_of:
  assumes "startsWith s p" and "CHR '' '' \<notin> set p"
  shows "startsWith (command_of s) p"
proof -
  from assms(1) have s: "s = p @ drop (length p) s"
    by (metis append_take_drop_id startsWith_def)
  have "takeWhile (\<lambda>c. c \<noteq> CHR '' '') (p @ drop (length p) s)
        = p @ takeWhile (\<lambda>c. c \<noteq> CHR '' '') (drop (length p) s)"
    using assms(2) by (intro takeWhile_append2) auto
  with s have "command_of s = p @ takeWhile (\<lambda>c. c \<noteq> CHR '' '') (drop (length p) s)"
    by (simp add: command_of_takeWhile)
  then show ?thesis
    by (simp add: startsWith_def)
qed

lemma command_of_startsWith:
  assumes "startsWith (command_of s) p"
  shows "startsWith s p"
proof -
  let ?w = "takeWhile (\<lambda>c. c \<noteq> CHR '' '') s"
  from assms have t: "take (length p) ?w = p"
    by (simp add: startsWith_def command_of_takeWhile)
  then have "length p \<le> length ?w"
    by (metis length_take min.cobounded1 min.commute)
  moreover have "s = ?w @ dropWhile (\<lambda>c. c \<noteq> CHR '' '') s"
    by simp
  ultimately have "take (length p) s = take (length p) ?w"
    by (metis take_append diff_is_0_eq take_0 append_Nil2)
  with t show ?thesis
    by (simp add: startsWith_def)
qed

lemma startsWith_trans:
  assumes "startsWith s p" and "startsWith p q"
  shows "startsWith s q"
proof -
  from assms(2) have "length q \<le> length p"
    by (metis startsWith_def length_take min.cobounded1 min.commute)
  then have "take (length q) s = take (length q) (take (length p) s)"
    by (simp add: min_def)
  with assms show ?thesis
    by (simp add: startsWith_def)
qed

lemma admin_switch_other:
  "c \<notin> set adminEventCommands \<Longrightarrow> admin_switch cfg e m c as = ret Next"
  by (simp add: admin_switch_def adminEventCommands_def)

lemma general_switch_other:
  assumes "c \<notin> set private_only_commands" and "c \<noteq> ''/start''" and "c \<noteq> ''/verify''"
    and "chat_type (chat_of m) \<noteq> Private"
  shows "general_switch cfg e m c as = ret ()"
  using assms by (simp add: general_switch_def private_only_commands_def)

lemma moderation_switch_other:
  "c \<notin> set moderation_commands \<Longrightarrow> moderation_switch cfg e m c as = ret ()"
  by (simp add: moderation_switch_def moderation_commands_def)

lemma switches_unknown:
  assumes "c \<notin> set private_only_commands" and "c \<notin> set adminEventCommands"
    and "c \<noteq> ''/start''" and "c \<noteq> ''/verify''" and "chat_type (chat_of m) \<noteq> Private"
  shows "and_then (if b then admin_switch cfg e m c as else ret Next)
              (\<lambda>fl. case fl of Return \<Rightarrow> ret ()
                    | Next \<Rightarrow> general_switch cfg e m c as) = ret ()"
proof -
  have a: "admin_switch cfg e m c as = ret Next"
    using assms(2) by (rule admin_switch_other)
  have g: "general_switch cfg e m c as = ret ()"
    using assms(1,3,4,5) by (rule general_switch_other)
  have "(if b then admin_switch cfg e m c as else ret Next) = ret Next"
    by (simp add: a)
  then show ?thesis
    by (simp only: and_then_ret flow.case g)
qed

lemma commands_unknown:
  assumes "command_of body \<notin> set private_only_commands"
    and "command_of body \<notin> set adminEventCommands"
    and "command_of body \<noteq> ''/start''" and "command_of body \<noteq> ''/verify''"
    and "chat_type (chat_of m) \<noteq> Private"
    and ia: "isUserAdmin e (chat_id (chat_of m)) (user_id (from_user m)) = (Some b, qs)"
  shows "commands cfg e m body = (Some (), if chat_id (chat_of m) < 0 then qs else [])"
proof -
  note sw = switches_unknown [OF assms(1-5)]
  have "commands cfg e m body
      = and_then (if chat_id (chat_of m) < 0
                  then isUserAdmin e (chat_id (chat_of m)) (user_id (from_user m))
                  else ret (to_Number e (TELEGRAM_ADMIN_ID cfg) = Some (user_id (from_user m))))
          (\<lambda>isSenderAdmin. ret ())"
    unfolding commands_def Let_def sw using assms(1) by simp
  also have "\<dots> = (Some (), if chat_id (chat_of m) < 0 then qs else [])"
  proof (cases "chat_id (chat_of m) < 0")
    case True
    then show ?thesis
      by (simp add: ia and_then_Some) (simp add: ret_def)
  next
    case False
    then show ?thesis
      by (simp add: and_then_ret) (simp add: ret_def)
  qed
  finally show ?thesis .
qed

lemma handle_message_unfold:
  assumes "text_of m = Some body" and "moderation cfg e m body = (Some Next, qs)"
  shows "handle_message cfg e m
         = (if startsWith body ''/'' then (fst (commands cfg e m body), qs @ snd (commands cfg e m body))
            else (fst (free_text cfg e m body), qs @ snd (free_text cfg e m body)))"
  unfolding handle_message_def Let_def assms option.case and_then_Some
  by simp

lemma POST_message:
  assumes "truthy (TELEGRAM_BOT_TOKEN cfg)"
  shows "POST cfg e (Update (Some m))
         = (case fst (handle_message cfg e m) of
              None \<Rightarrow> Error_500 ''Error processing request'' | Some u \<Rightarrow> Ok_200,
            snd (handle_message cfg e m))"
  using assms by (simp add: POST_def split: prod.splits option.splits)

lemma calls_POST:
  "calls (POST cfg e (Update (Some m)))
     = (if truthy (TELEGRAM_BOT_TOKEN cfg) then snd (handle_message cfg e m) else [])"
  by (simp add: POST_def calls_def split: prod.splits option.splits)

lemma fst_sendMessage: "fst (sendMessage cfg c t r k) = Some ()"
  by (simp add: sendMessage_def ret_def)

section \<open>The duration parser\<close>

lemma unit_not_digit: "u \<in> set ''hdm'' \<Longrightarrow> \<not> is_digit u"
  by (auto simp: is_digit_def digit_chars_def)

lemma match_duration_shape:
  assumes "duration_shape s"
  shows "match_duration s = Some (butlast s, last s)"
proof -
  from assms have s: "s = butlast s @ [last s]" and d: "list_all is_digit (butlast s)"
    and u: "last s \<in> set ''hdm''" and ne: "butlast s \<noteq> []"
    by (simp_all add: duration_shape_def)
  from d have all: "\<forall>c \<in> set (butlast s). is_digit c"
    by (simp add: list_all_iff)
  have nd: "\<not> is_digit (last s)"
    using u by (rule unit_not_digit)
  have tw: "takeWhile is_digit (butlast s @ [last s]) = butlast s"
    using all nd by simp
  have dw: "dropWhile is_digit (butlast s @ [last s]) = [last s]"
    using all nd by simp
  have "match_duration (butlast s @ [last s]) = Some (butlast s, last s)"
    unfolding match_duration_def tw dw using ne u by simp
  with s show ?thesis by simp
qed

lemma match_duration_Some:
  assumes "match_duration s = Some (ds, u)"
  shows "duration_shape s \<and> ds = butlast s \<and> u = last s"
proof -
  from assms have dw: "dropWhile is_digit s = [u]" and ds: "ds = takeWhile is_digit s"
    and ne: "ds \<noteq> []" and u: "u \<in> set ''hdm''"
    by (auto simp: match_duration_def Let_def split: list.splits if_splits)
  have "s = takeWhile is_digit s @ dropWhile is_digit s" by simp
  with dw ds have s: "s = ds @ [u]" by simp
  have "list_all is_digit ds"
    unfolding ds list_all_iff by (auto dest: set_takeWhileD)
  with s ne u show ?thesis
    by (simp add: duration_shape_def)
qed

lemma decimal_nonneg: "0 \<le> decimal ds"
proof -
  have "0 \<le> foldl (\<lambda>n c. 10 * n + digit_value c) a ds" if "0 \<le> a" for a
    using that
  proof (induction ds arbitrary: a)
    case Nil
    then show ?case by simp
  next
    case (Cons c ds)
    have "0 \<le> digit_value c"
      by (simp add: digit_value_def digit_chars_def split: option.splits)
    with Cons.prems have "0 \<le> 10 * a + digit_value c" by simp
    then show ?case
      using Cons.IH by simp
  qed
  then show ?thesis
    by (simp add: decimal_def)
qed

lemma to_double_exact: "0 \<le> n \<Longrightarrow> n \<le> 2 ^ 53 \<Longrightarrow> to_double n = Exactly n"
  by (simp add: to_double_def round_nat_def)

lemma unit_seconds_pos: "u \<in> set ''hdm'' \<Longrightarrow> 1 \<le> unit_seconds u"
  by (auto simp: unit_seconds_def)

lemma parseMuteDuration_shape:
  "parseMuteDuration s
     = (if duration_shape s then js_times (parseInt (butlast s)) (unit_seconds (last s))
        else Exactly 0)"
proof (cases "duration_shape s")
  case True
  then have m: "match_duration s = Some (butlast s, last s)"
    by (rule match_duration_shape)
  from True have "last s \<in> set ''hdm''"
    by (simp add: duration_shape_def)
  with True show ?thesis
    unfolding parseMuteDuration_def m by (auto simp: unit_seconds_def)
next
  case False
  then have "match_duration s = None"
    using match_duration_Some [of s] by (cases "match_duration s") auto
  with False show ?thesis
    by (simp add: parseMuteDuration_def)
qed

lemma parseMuteDuration_exact:
  assumes sh: "duration_shape s"
    and le: "decimal (butlast s) * unit_seconds (last s) \<le> 2 ^ 53"
  shows "parseMuteDuration s = Exactly (decimal (butlast s) * unit_seconds (last s))"
proof -
  let ?v = "decimal (butlast s)" and ?k = "unit_seconds (last s)"
  have v: "0 \<le> ?v" by (rule decimal_nonneg)
  from sh have k: "1 \<le> ?k"
    by (simp add: duration_shape_def unit_seconds_pos)
  from v k have "?v * 1 \<le> ?v * ?k"
    by (intro mult_left_mono) auto
  with le have vle: "?v \<le> 2 ^ 53" by simp
  have p: "parseInt (butlast s) = Exactly ?v"
    using v vle by (simp add: parseInt_def to_double_exact)
  have "0 \<le> ?v * ?k"
    using v k by simp
  then have "js_times (Exactly ?v) ?k = Exactly (?v * ?k)"
    using le by (simp add: js_times_def to_double_exact)
  with sh p show ?thesis
    by (simp add: parseMuteDuration_shape)
qed

text \<open>
  Claim C6. \<^verbatim>\<open>parseMuteDuration\<close> maps one or more digits followed by exactly one unit
  character to the digits' value times 3600 for \<^verbatim>\<open>h\<close>, 86400 for \<^verbatim>\<open>d\<close> and 60 for \<^verbatim>\<open>m\<close>,
  the value and the product being the source's doubles, and every other string to 0. Up
  to \<open>2 ^ 53\<close> the product is the exact one; the six rows of the specification's table
  are instances.
\<close>

theorem parseMuteDuration_table:
  "parseMuteDuration s
     = (if duration_shape s then js_times (parseInt (butlast s)) (unit_seconds (last s))
        else Exactly 0)
   \<and> (duration_shape s \<and> decimal (butlast s) * unit_seconds (last s) \<le> 2 ^ 53
        \<longrightarrow> parseMuteDuration s = Exactly (decimal (butlast s) * unit_seconds (last s)))
   \<and> parseMuteDuration ''1h'' = Exactly 3600 \<and> parseMuteDuration ''7d'' = Exactly 604800
   \<and> parseMuteDuration ''30m'' = Exactly 1800 \<and> parseMuteDuration ''abc'' = Exactly 0
   \<and> parseMuteDuration [] = Exactly 0 \<and> parseMuteDuration ''5x'' = Exactly 0"
proof -
  have tab: "parseMuteDuration ''1h'' = Exactly 3600" "parseMuteDuration ''7d'' = Exactly 604800"
    "parseMuteDuration ''30m'' = Exactly 1800" "parseMuteDuration ''abc'' = Exactly 0"
    "parseMuteDuration [] = Exactly 0" "parseMuteDuration ''5x'' = Exactly 0"
    by code_simp+
  show ?thesis
    using parseMuteDuration_shape [of s] parseMuteDuration_exact [of s] tab
    by (intro conjI impI) simp_all
qed

theorem parseMuteDuration_table_witness:
  "duration_shape ''7d'' \<and> decimal (butlast ''7d'') * unit_seconds (last ''7d'') \<le> 2 ^ 53
   \<and> parseMuteDuration ''7d'' = Exactly (decimal (butlast ''7d'') * unit_seconds (last ''7d''))"
proof -
  have sh: "duration_shape ''7d''"
    by code_simp
  have v: "decimal (butlast ''7d'') * unit_seconds (last ''7d'') = 604800"
    by code_simp
  have le: "decimal (butlast ''7d'') * unit_seconds (last ''7d'') \<le> 2 ^ 53"
    unfolding v by simp
  from parseMuteDuration_table [of "''7d''"]
  have "duration_shape ''7d'' \<and> decimal (butlast ''7d'') * unit_seconds (last ''7d'') \<le> 2 ^ 53
        \<longrightarrow> parseMuteDuration ''7d'' = Exactly (decimal (butlast ''7d'') * unit_seconds (last ''7d''))"
    by (rule conjunct1 [OF conjunct2])
  with sh le show ?thesis
    by blast
qed

text \<open>
  Above \<open>2 ^ 53\<close> the value and the product are rounded as the source rounds them:
  \<open>2 ^ 53 + 1\<close> minutes are \<open>2 ^ 53 * 60\<close> seconds.
\<close>

lemma parseMuteDuration_rounds:
  "parseMuteDuration rounding_example = Exactly 540431955284459520"
  by code_simp

section \<open>The privilege resolver\<close>

text \<open>
  Claim C9. When the membership query fails (the request throws, or the answer is not
  ok) or reports a status other than creator and administrator, \<^verbatim>\<open>isUserAdmin\<close> returns
  false: a failure of the collaborator never grants the privilege.
\<close>

theorem isUserAdmin_fail_closed:
  assumes "getChatMember e chatId userId = FetchThrows \<or> getChatMember e chatId userId = NotOk
           \<or> (\<exists>st. getChatMember e chatId userId = OkStatus st
                    \<and> st \<noteq> ''creator'' \<and> st \<noteq> ''administrator'')"
  shows "fst (isUserAdmin e chatId userId) = Some False"
  using assms by (auto simp: isUserAdmin_def ret_def)

theorem isUserAdmin_fail_closed_witness:
  "getChatMember demo_env (- 100) 3 = FetchThrows
   \<and> fst (isUserAdmin demo_env (- 100) 3) = Some False"
proof -
  have h: "getChatMember demo_env (- 100) 3 = FetchThrows"
    by (simp add: demo_env_def)
  from h isUserAdmin_fail_closed [of demo_env "- 100" 3] show ?thesis
    by simp
qed

section \<open>The argument parser\<close>

lemma foldl_upd_key:
  "foldl put m toks key
     = (case map_of (rev toks) key of None \<Rightarrow> m key | Some v \<Rightarrow> Some v)"
  by (induction toks arbitrary: m) (auto simp: put_def map_add_def split: option.splits)

lemma exec_loop_proto:
  "map_of (exec_loop s args) ''__proto__'' = map_of args ''__proto__''"
proof (induction s args rule: exec_loop.induct)
  case (1 s args)
  show ?case
  proof (cases "s = []")
    case True
    then show ?thesis by (subst exec_loop.simps) simp
  next
    case False
    show ?thesis
    proof (cases "match_arg_at s")
      case None
      note ih = "1.IH"(1) [OF False None]
      have "exec_loop s args = exec_loop (tl s) args"
        using False None by (subst exec_loop.simps) simp
      with ih show ?thesis by simp
    next
      case (Some t)
      obtain k v rest where t: "t = (k, v, rest)" by (cases t) auto
      have ih: "map_of (exec_loop rest (obj_set args k v)) ''__proto__''
            = map_of (obj_set args k v) ''__proto__''"
        using "1.IH"(2) [OF False Some t [symmetric] refl] .
      have "exec_loop s args = exec_loop rest (obj_set args k v)"
        using False Some t by (subst exec_loop.simps) simp
      with ih show ?thesis
        by (simp add: obj_set_def AList.update_conv')
    qed
  qed
qed

lemma exec_loop_other:
  assumes "key \<noteq> ''__proto__''"
  shows "map_of (exec_loop s args) key
         = foldl put (map_of args) (spec_tokens s) key"
proof (induction s args rule: exec_loop.induct)
  case (1 s args)
  show ?case
  proof (cases "s = []")
    case True
    have "exec_loop s args = args"
      using True by (subst exec_loop.simps) simp
    moreover have "spec_tokens s = []"
      using True by (subst spec_tokens.simps) simp
    ultimately show ?thesis by simp
  next
    case False
    show ?thesis
    proof (cases "match_arg_at s")
      case None
      note ih = "1.IH"(1) [OF False None]
      have "exec_loop s args = exec_loop (tl s) args"
        using False None by (subst exec_loop.simps) simp
      moreover have "spec_tokens s = spec_tokens (tl s)"
        using False None by (subst spec_tokens.simps) simp
      ultimately show ?thesis using ih by simp
    next
      case (Some t)
      obtain k v rest where t: "t = (k, v, rest)" by (cases t) auto
      have ih: "map_of (exec_loop rest (obj_set args k v)) key
            = foldl put (map_of (obj_set args k v)) (spec_tokens rest) key"
        using "1.IH"(2) [OF False Some t [symmetric] refl] .
      have e: "exec_loop s args = exec_loop rest (obj_set args k v)"
        using False Some t by (subst exec_loop.simps) simp
      have st: "spec_tokens s = (k, v) # spec_tokens rest"
        using False Some t by (subst spec_tokens.simps) simp
      have "map_of (obj_set args k v) key = ((map_of args)(k \<mapsto> v)) key"
        using assms by (simp add: obj_set_def AList.update_conv')
      then have "foldl put (map_of (obj_set args k v)) (spec_tokens rest) key
            = foldl put (put (map_of args) (k, v)) (spec_tokens rest) key"
        by (simp only: foldl_upd_key put_def fst_conv snd_conv)
      with ih e st show ?thesis
        by (simp only: foldl.simps)
    qed
  qed
qed

text \<open>
  The argument parser computes the mapping of the left-to-right scan, last occurrence
  winning, at every key but \<^verbatim>\<open>__proto__\<close>, which it never holds.
\<close>

lemma parseCommandArgs_refines:
  "map_of (parseCommandArgs txt) key
     = (if key = ''__proto__'' then None else spec_parseArgs txt key)"
  by (simp add: parseCommandArgs_def spec_parseArgs_def exec_loop_proto exec_loop_other)

text \<open>
  Claim C7. \<^verbatim>\<open>parseCommandArgs\<close> is claimed to return, for every text, exactly the mapping of
  the left-to-right scan of its \<^verbatim>\<open>identifier="value"\<close> tokens. On the text
  \<^verbatim>\<open>__proto__="x"\<close> the scan finds the token and its mapping holds the key, and the
  source returns an object with no key at all.
\<close>

theorem parseCommandArgs_drops_proto:
  "parseCommandArgs proto_arg = [] \<and> spec_parseArgs proto_arg ''__proto__'' = Some ''x''"
  by code_simp

text \<open>The three examples of the specification hold.\<close>

lemma parseCommandArgs_examples:
  "parseCommandArgs (''title='' @ [dquote] @ ''A'' @ [dquote] @ '' date='' @ [dquote] @ ''2025-01-01'' @ [dquote])
     = [(''title'', ''A''), (''date'', ''2025-01-01'')]"
  "parseCommandArgs (''a='' @ [dquote] @ ''1'' @ [dquote] @ '' a='' @ [dquote] @ ''2'' @ [dquote]) = [(''a'', ''2'')]"
  "map_of (parseCommandArgs ''title=A'') ''title'' = None"
  by code_simp+

text \<open>A key and a value of the parsed mapping are never empty.\<close>

lemma match_arg_at_nonempty:
  "match_arg_at s = Some (k, v, rest) \<Longrightarrow> k \<noteq> [] \<and> v \<noteq> []"
  by (auto simp: match_arg_at_def Let_def split: if_splits list.splits)

lemma obj_set_subset: "set (obj_set args k v) \<subseteq> insert (k, v) (set args)"
  by (induction args) (auto simp: obj_set_def)

lemma exec_loop_nonempty:
  assumes "\<forall>(k, v) \<in> set args. k \<noteq> [] \<and> v \<noteq> []"
  shows "\<forall>(k, v) \<in> set (exec_loop s args). k \<noteq> [] \<and> v \<noteq> []"
  using assms
proof (induction s args rule: exec_loop.induct)
  case (1 s args)
  show ?case
  proof (cases "s = []")
    case True
    have "exec_loop s args = args"
      using True by (subst exec_loop.simps) simp
    with "1.prems" show ?thesis by simp
  next
    case False
    show ?thesis
    proof (cases "match_arg_at s")
      case None
      have "exec_loop s args = exec_loop (tl s) args"
        using False None by (subst exec_loop.simps) simp
      with "1.IH"(1) [OF False None "1.prems"] show ?thesis by simp
    next
      case (Some t)
      obtain k v rest where t: "t = (k, v, rest)" by (cases t) auto
      from Some t have ne: "k \<noteq> [] \<and> v \<noteq> []"
        using match_arg_at_nonempty by blast
      have inv: "\<forall>(k, v) \<in> set (obj_set args k v). k \<noteq> [] \<and> v \<noteq> []"
        using obj_set_subset [of args k v] ne "1.prems" by auto
      have e: "exec_loop s args = exec_loop rest (obj_set args k v)"
        using False Some t by (subst exec_loop.simps) simp
      show ?thesis
        unfolding e using "1.IH"(2) [OF False Some t [symmetric] refl inv] .
    qed
  qed
qed

lemma parseCommandArgs_nonempty:
  "obj_get (parseCommandArgs s) k = Some v \<Longrightarrow> k \<noteq> [] \<and> v \<noteq> []"
  using exec_loop_nonempty [of "[]" s]
  by (auto simp: parseCommandArgs_def obj_get_def dest!: map_of_SomeD)

section \<open>Event management\<close>

text \<open>
  Claim C8, as stated: a missing field is answered with a field-specific error message.
  The source has one guard for the three fields and one message: it answers a missing
  \<^verbatim>\<open>title\<close> and a missing \<^verbatim>\<open>code\<close> with the same text.
\<close>

theorem createEvent_one_message:
  "fst (createEvent demo_config demo_env [(''date'', ''2025-01-01''), (''code'', ''wad25'')])
     = Some \<lparr>success = False, message = missing_fields_message\<rparr>
   \<and> fst (createEvent demo_config demo_env [(''title'', ''Talk''), (''date'', ''2025-01-01'')])
     = Some \<lparr>success = False, message = missing_fields_message\<rparr>"
  by (simp add: createEvent_def getAirtableBase_def demo_config_def truthy_def obj_get_def
      ret_def Let_def)

text \<open>
  Claim C8, amended. \<^verbatim>\<open>createEvent\<close> on a mapping that misses \<^verbatim>\<open>title\<close>, \<^verbatim>\<open>date\<close> or
  \<^verbatim>\<open>code\<close> fails without any create-record call; its message is the one text that names
  the three required fields, whichever is missing, when the events table is configured,
  and the text of the missing configuration otherwise. When the table is configured and
  the three fields are present and not empty (no value of the argument parser is), it
  issues one create-record call whose \<^verbatim>\<open>EventCode\<close> is the upper-cased code and whose
  \<^verbatim>\<open>Published\<close> is true, and it succeeds unless that call throws.
\<close>

theorem createEvent_requires_fields:
  "(obj_get args ''title'' = None \<or> obj_get args ''date'' = None \<or> obj_get args ''code'' = None
      \<longrightarrow> calls (createEvent cfg e args) = []
          \<and> fst (createEvent cfg e args)
              = Some \<lparr>success = False,
                      message = (if events_configured cfg then missing_fields_message
                                 else ''Airtable for events not configured.'')\<rparr>)
   \<and> (events_configured cfg \<and> truthy (obj_get args ''title'') \<and> truthy (obj_get args ''date'')
        \<and> truthy (obj_get args ''code'')
      \<longrightarrow> (\<exists>fs.
             calls (createEvent cfg e args)
               = [AirtableCreate (env_string (AIRTABLE_EVENTS_TABLE_ID cfg)) fs]
             \<and> map_of fs ''EventCode''
                 = Some (Str (toUpperCase e (env_string (obj_get args ''code''))))
             \<and> map_of fs ''Published'' = Some (Flag True)
             \<and> map_option success (fst (createEvent cfg e args))
                 = Some (\<not> rejects e (AirtableCreate (env_string (AIRTABLE_EVENTS_TABLE_ID cfg)) fs))))"
  by (auto simp: createEvent_def events_configured_def calls_def ret_def truthy_def Let_def)

theorem createEvent_requires_fields_witness:
  "obj_get [(''title'', ''Talk''), (''date'', ''2025-01-01'')] ''code'' = None
   \<and> calls (createEvent demo_config demo_env [(''title'', ''Talk''), (''date'', ''2025-01-01'')]) = []
   \<and> fst (createEvent demo_config demo_env [(''title'', ''Talk''), (''date'', ''2025-01-01'')])
       = Some \<lparr>success = False, message = missing_fields_message\<rparr>
   \<and> events_configured demo_config
   \<and> calls (createEvent demo_config demo_env full_event_args)
       = [AirtableCreate ''events''
            [(''Title'', Str ''Talk''), (''Date'', Str ''2025-01-01''), (''Description'', Str []),
             (''Registration URL'', Str []), (''EventCode'', Str ''WAD25''), (''Published'', Flag True)]]
   \<and> map_option success (fst (createEvent demo_config demo_env full_event_args)) = Some True"
proof -
  have c: "events_configured demo_config"
    by (simp add: events_configured_def getAirtableBase_def demo_config_def truthy_def)
  have m: "obj_get [(''title'', ''Talk''), (''date'', ''2025-01-01'')] ''code'' = None"
    by (simp add: obj_get_def)
  have t: "truthy (obj_get full_event_args ''title'')" "truthy (obj_get full_event_args ''date'')"
    "truthy (obj_get full_event_args ''code'')"
    by (simp_all add: obj_get_def full_event_args_def truthy_def)
  have up: "toUpperCase demo_env ''wad25'' = ''WAD25''"
    by code_simp
  have ev: "calls (createEvent demo_config demo_env full_event_args)
       = [AirtableCreate ''events''
            [(''Title'', Str ''Talk''), (''Date'', Str ''2025-01-01''), (''Description'', Str []),
             (''Registration URL'', Str []), (''EventCode'', Str ''WAD25''), (''Published'', Flag True)]]"
    using up
    by (simp add: createEvent_def calls_def getAirtableBase_def demo_config_def truthy_def
        obj_get_def full_event_args_def env_string_def or_else_def Let_def)
  have rj: "\<And>c. \<not> rejects demo_env c"
    by (simp add: demo_env_def)
  from createEvent_requires_fields [of "[(''title'', ''Talk''), (''date'', ''2025-01-01'')]" demo_config demo_env]
    createEvent_requires_fields [of full_event_args demo_config demo_env] c m t ev rj
  show ?thesis
    by simp
qed

text \<open>
  Claim C3, as stated: \<^verbatim>\<open>updateEvent\<close> fails and issues no update-record call when the
  mapping holds no recognized field. It does not: for the event WAD25 and the mapping
  \<^verbatim>\<open>{foo: "bar"}\<close> the source updates the record with an empty set of fields and reports
  success. Its guard is on the number of keys (\<^verbatim>\<open>Object.keys(args).length === 0\<close>).
\<close>

theorem updateEvent_unrecognized_succeeds:
  "recognized_fields demo_env [(''foo'', ''bar'')] = []
   \<and> map_option success (fst (updateEvent demo_config demo_env ''wad25'' [(''foo'', ''bar'')])) = Some True
   \<and> calls (updateEvent demo_config demo_env ''wad25'' [(''foo'', ''bar'')])
       = [AirtableSelect ''events''
            \<lparr>filterByFormula = Some (''UPPER({EventCode}) = '' @ [dquote] @ ''WAD25'' @ [dquote]),
             maxRecords = Some 1, sort_by = []\<rparr>,
          AirtableUpdate ''events'' ''recE1'' []]"
proof -
  have up: "toUpperCase demo_env ''wad25'' = ''WAD25''"
    by code_simp
  then have f: "event_formula demo_env ''wad25'' = ''UPPER({EventCode}) = '' @ [dquote] @ ''WAD25'' @ [dquote]"
    by (simp add: event_formula_def)
  show ?thesis
    using f
    by (simp add: recognized_fields_def obj_get_def updateEvent_def getAirtableBase_def
        demo_config_def demo_env_def truthy_def env_string_def event_query_def calls_def
        fieldsToUpdate_def Let_def)
qed

text \<open>
  Claim C3, amended. \<^verbatim>\<open>updateEvent\<close> returns \<^verbatim>\<open>success = false\<close> and issues no update-record
  call whenever the mapping has no key or the lookup of the event code, upper-cased by
  \<^verbatim>\<open>toUpperCase\<close> as the source does, finds no record; it succeeds only when the events
  table is configured, the mapping has at least one key and the lookup finds the event.
\<close>

theorem updateEvent_rejects:
  "(args = [] \<or> airtable_select e (env_string (AIRTABLE_EVENTS_TABLE_ID cfg)) (event_query e eventCode) = Some []
      \<longrightarrow> map_option success (fst (updateEvent cfg e eventCode args)) = Some False
          \<and> filter is_update_record (calls (updateEvent cfg e eventCode args)) = [])
   \<and> (map_option success (fst (updateEvent cfg e eventCode args)) = Some True
      \<longrightarrow> args \<noteq> [] \<and> events_configured cfg
          \<and> (\<exists>r rs. airtable_select e (env_string (AIRTABLE_EVENTS_TABLE_ID cfg)) (event_query e eventCode)
                       = Some (r # rs)))"
  by (auto simp: updateEvent_def events_configured_def event_query_def calls_def ret_def Let_def
      split: option.splits list.splits)

theorem updateEvent_rejects_witness:
  "airtable_select demo_env (env_string (AIRTABLE_EVENTS_TABLE_ID demo_config)) (event_query demo_env ''nope'') = Some []
   \<and> map_option success (fst (updateEvent demo_config demo_env ''nope'' [(''title'', ''T'')])) = Some False
   \<and> filter is_update_record (calls (updateEvent demo_config demo_env ''nope'' [(''title'', ''T'')])) = []
   \<and> map_option success (fst (updateEvent demo_config demo_env ''WAD25'' [(''title'', ''T'')])) = Some True
   \<and> events_configured demo_config"
proof -
  have up: "toUpperCase demo_env ''nope'' = ''NOPE''" "toUpperCase demo_env ''WAD25'' = ''WAD25''"
    by code_simp+
  have s: "airtable_select demo_env (env_string (AIRTABLE_EVENTS_TABLE_ID demo_config)) (event_query demo_env ''nope'') = Some []"
    unfolding event_query_def event_formula_def up
    by (simp add: demo_env_def demo_config_def env_string_def)
  have f: "event_formula demo_env ''WAD25'' = ''UPPER({EventCode}) = '' @ [dquote] @ ''WAD25'' @ [dquote]"
    using up by (simp add: event_formula_def)
  have t: "map_option success (fst (updateEvent demo_config demo_env ''WAD25'' [(''title'', ''T'')])) = Some True"
    using f
    by (simp add: updateEvent_def getAirtableBase_def
        demo_config_def demo_env_def truthy_def env_string_def Let_def)
  from updateEvent_rejects [of "[(''title'', ''T'')]" demo_env demo_config "''nope''"]
    updateEvent_rejects [of "[(''title'', ''T'')]" demo_env demo_config "''WAD25''"] s t
  show ?thesis by simp
qed

section \<open>Privilege resolutions per message\<close>

lemma mq_ret [simp]: "member_queries (ret a) = []"
  by (simp add: member_queries_def calls_def ret_def)

lemma mq_throw [simp]: "member_queries throw = []"
  by (simp add: member_queries_def calls_def throw_def)

lemma mq_and_then:
  "member_queries (and_then m f)
     = member_queries m @ (case fst m of None \<Rightarrow> [] | Some a \<Rightarrow> member_queries (f a))"
  by (simp add: member_queries_def calls_def snd_and_then split: option.splits)

lemma mq_and_then_nil:
  assumes "member_queries m = []" and "\<And>a. member_queries (f a) = []"
  shows "member_queries (and_then m f) = []"
  using assms by (simp add: mq_and_then split: option.splits)

lemma mq_sendMessage [simp]: "member_queries (sendMessage cfg c t r k) = []"
  by (simp add: member_queries_def calls_def sendMessage_def ret_def)

lemma mq_fetch: "\<not> is_member_query c \<Longrightarrow> member_queries (fetch e c) = []"
  by (simp add: member_queries_def calls_def fetch_def)

lemma mq_banUser [simp]: "member_queries (banUser cfg e c u r) = []"
  unfolding banUser_def by (rule mq_and_then_nil) (simp_all add: mq_fetch)

lemma mq_muteUser [simp]: "member_queries (muteUser cfg e c u d r) = []"
  unfolding muteUser_def Let_def by (rule mq_and_then_nil) (simp_all add: mq_fetch)

lemma mq_unmuteUser [simp]: "member_queries (unmuteUser cfg e c u) = []"
  unfolding unmuteUser_def by (rule mq_and_then_nil) (simp_all add: mq_fetch)

lemma mq_deleteMessage [simp]: "member_queries (deleteMessage e c i) = []"
  by (simp add: deleteMessage_def mq_fetch)

lemma mq_verifyMember [simp]: "member_queries (verifyMember cfg e a) = []"
  by (simp add: verifyMember_def Let_def) (simp add: member_queries_def calls_def)

lemma mq_createInviteLink [simp]: "member_queries (createInviteLink e c) = []"
  by (simp add: createInviteLink_def member_queries_def calls_def)

lemma mq_getUpcomingEvents [simp]: "member_queries (getUpcomingEvents cfg e) = []"
  by (simp add: getUpcomingEvents_def Let_def) (simp add: member_queries_def calls_def)

lemma mq_getAllEventsAdmin [simp]: "member_queries (getAllEventsAdmin cfg e) = []"
  by (simp add: getAllEventsAdmin_def Let_def) (simp add: member_queries_def calls_def)

lemma mq_getAllSubmissions [simp]: "member_queries (getAllSubmissions cfg e) = []"
  by (simp add: getAllSubmissions_def Let_def) (simp add: member_queries_def calls_def)

lemma mq_logSubmission [simp]: "member_queries (logSubmission cfg e u t ty c) = []"
  by (simp add: logSubmission_def Let_def) (simp add: member_queries_def calls_def)

lemma mq_createEvent [simp]: "member_queries (createEvent cfg e args) = []"
  by (simp add: createEvent_def Let_def) (simp add: member_queries_def calls_def)

lemma mq_updateEvent [simp]: "member_queries (updateEvent cfg e c args) = []"
  by (simp add: updateEvent_def Let_def split: option.splits list.splits)
     (simp add: member_queries_def calls_def)

lemma mq_if:
  assumes "c \<Longrightarrow> member_queries a = []" and "\<not> c \<Longrightarrow> member_queries b = []"
  shows "member_queries (if c then a else b) = []"
  using assms by simp

lemma mq_handleVerification [simp]: "member_queries (handleVerification cfg e c a) = []"
  unfolding handleVerification_def
  by (intro mq_if mq_and_then_nil) simp_all

lemma mq_getMe [simp]:
  "member_queries (case getMe e of MeThrows \<Rightarrow> (None, [GetMe]) | MeResult u \<Rightarrow> (Some u, [GetMe])) = []"
  by (simp add: member_queries_def calls_def split: me_response.splits)

lemma mq_redirect [simp]: "member_queries (redirect cfg e m) = []"
  unfolding redirect_def
  by (intro mq_if mq_and_then_nil) simp_all

lemma mq_admin_switch [simp]: "member_queries (admin_switch cfg e m c as) = []"
  unfolding admin_switch_def Let_def
  by (intro mq_if mq_and_then_nil) simp_all

lemma mq_general_switch [simp]: "member_queries (general_switch cfg e m c as) = []"
  unfolding general_switch_def Let_def
  by (intro mq_if mq_and_then_nil) simp_all

lemma mq_admin_report [simp]: "member_queries (admin_report cfg e c) = []"
  unfolding admin_report_def
  by (intro mq_if mq_and_then_nil) simp_all

lemma mq_free_text [simp]: "member_queries (free_text cfg e m t) = []"
  unfolding free_text_def
  by (intro mq_if mq_and_then_nil) simp_all

lemma mq_isUserAdmin:
  "member_queries (isUserAdmin e c u) = (if c > 0 then [] else [GetChatMember c u])"
  by (simp add: isUserAdmin_def member_queries_def calls_def ret_def)

lemma fst_isUserAdmin: "\<exists>b. fst (isUserAdmin e c u) = Some b"
  by (auto simp: isUserAdmin_def ret_def)

lemma mq_moderation_switch:
  "member_queries (moderation_switch cfg e m c as)
     \<in> set ([] # (case reply_to_message m of None \<Rightarrow> [] | Some r \<Rightarrow> [[target_query m r]]))"
proof (cases "reply_to_message m")
  case None
  then have "member_queries (moderation_switch cfg e m c as) = []"
    unfolding moderation_switch_def Let_def
    by (simp add: mq_and_then_nil)
  with None show ?thesis by simp
next
  case (Some r)
  have inner: "member_queries
     (and_then (isUserAdmin e (chat_id (chat_of m)) (user_id (from_user r))) f)
       \<in> {[], [target_query m r]}"
    if "\<And>b. member_queries (f b) = []" for f :: "bool \<Rightarrow> unit eff"
    using that fst_isUserAdmin [of e "chat_id (chat_of m)" "user_id (from_user r)"]
    by (auto simp: mq_and_then mq_isUserAdmin target_query_def)
  have del: "member_queries (and_then x (\<lambda>_. deleteMessage e a b)) = []"
    if "member_queries x = []" for x :: "unit eff" and a b
    using that by (rule mq_and_then_nil) simp
  show ?thesis
    unfolding moderation_switch_def Let_def using Some
    apply (simp add: del)
    apply (intro conjI impI)
     apply (rule inner [simplified])
     apply (simp split: option.splits)
    apply (rule inner [simplified])
    apply (simp split: option.splits)
    done
qed

lemma mq_and_then_Some:
  "member_queries (and_then (Some a, tr) f) = filter is_member_query tr @ member_queries (f a)"
  by (simp add: mq_and_then) (simp add: member_queries_def calls_def)

lemma mq_moderation:
  "member_queries (moderation cfg e m txt)
     \<in> set ([[], [sender_query m]]
           @ (case reply_to_message m of None \<Rightarrow> [] | Some r \<Rightarrow> [[sender_query m, target_query m r]]))"
proof -
  obtain b where b: "isUserAdmin e (chat_id (chat_of m)) (user_id (from_user m))
      = (Some b, if chat_id (chat_of m) > 0 then []
                 else [GetChatMember (chat_id (chat_of m)) (user_id (from_user m))])"
    and pos: "chat_id (chat_of m) > 0 \<longrightarrow> \<not> b"
    using isUserAdmin_value by blast
  have sw: "member_queries (and_then (moderation_switch cfg e m c as) (\<lambda>_. ret Next))
              = member_queries (moderation_switch cfg e m c as)" for c as
    by (simp add: mq_and_then split: option.splits)
  have rp: "member_queries (and_then (sendMessage cfg c t r k) (\<lambda>_. ret Return)) = []" for c t r k
    by (rule mq_and_then_nil) simp_all
  show ?thesis
  proof (cases "chat_type (chat_of m) \<noteq> Private \<and> startsWith txt ''/'' \<and> b")
    case False
    then show ?thesis
      unfolding moderation_def b
      by (auto simp: mq_and_then_Some sender_query_def)
  next
    case True
    with pos have np: "\<not> chat_id (chat_of m) > 0" by auto
    show ?thesis
      using True np mq_moderation_switch [of cfg e m "command_of txt" "args_of txt"]
      unfolding moderation_def b
      by (cases "reply_to_message m") (auto simp: mq_and_then_Some sender_query_def sw rp)
  qed
qed

lemma mq_and_then_left:
  assumes "\<And>a. member_queries (f a) = []"
  shows "member_queries (and_then m f) = member_queries m"
  using assms by (simp add: mq_and_then split: option.splits)

lemma mq_commands:
  "member_queries (commands cfg e m txt) \<in> {[], [sender_query m]}"
proof -
  have tl: "member_queries
      (and_then (if isSenderAdmin then admin_switch cfg e m c as else ret Next)
         (\<lambda>fl. case fl of Return \<Rightarrow> ret () | Next \<Rightarrow> general_switch cfg e m c as)) = []"
    for isSenderAdmin c as
    by (rule mq_and_then_nil) (simp_all split: flow.splits)
  have rd: "member_queries (and_then (redirect cfg e m) (\<lambda>_. ret ())) = []"
    by (rule mq_and_then_nil) simp_all
  show ?thesis
    unfolding commands_def Let_def
    by (simp add: mq_and_then_left [OF tl] rd mq_isUserAdmin sender_query_def)
qed

lemma mq_handle_message:
  "member_queries (handle_message cfg e m) \<in> set (query_patterns m)"
proof -
  define body where "body = (case text_of m of None \<Rightarrow> [] | Some t \<Rightarrow> t)"
  define k where "k = (\<lambda>fl. case fl of Return \<Rightarrow> ret ()
            | Next \<Rightarrow> if startsWith body ''/'' then commands cfg e m body else free_text cfg e m body)"
  define A where "A = member_queries (moderation cfg e m body)"
  define B where "B = (case fst (moderation cfg e m body) of None \<Rightarrow> [] | Some fl \<Rightarrow> member_queries (k fl))"
  have kq: "member_queries (k fl) \<in> {[], [sender_query m]}" for fl
    using mq_commands [of cfg e m body] by (cases fl) (auto simp: k_def)
  have hm: "member_queries (handle_message cfg e m) = A @ B"
    unfolding handle_message_def Let_def A_def B_def k_def body_def by (rule mq_and_then)
  have B: "B \<in> {[], [sender_query m]}"
    unfolding B_def using kq by (cases "fst (moderation cfg e m body)") auto
  have A: "A \<in> set ([[], [sender_query m]]
           @ (case reply_to_message m of None \<Rightarrow> [] | Some r \<Rightarrow> [[sender_query m, target_query m r]]))"
    unfolding A_def by (rule mq_moderation)
  show ?thesis
    unfolding hm using A B
    by (cases "reply_to_message m") (auto simp: query_patterns_def)
qed

text \<open>
  Claim C4, amended. In the handling of one message the membership queries are, in
  order, one of: none; the sender; the sender twice; the sender and the author of the
  replied-to message; the sender, that author, and the sender again. The sender's
  privilege is resolved at most once before the moderation commands (line 451) and at
  most once before the admin-only event commands (line 520), each time anew.
\<close>

theorem member_queries_per_message:
  "member_queries (POST cfg e (Update (Some m))) \<in> set (query_patterns m)"
proof (cases "truthy (TELEGRAM_BOT_TOKEN cfg)")
  case False
  then show ?thesis
    by (simp add: POST_def member_queries_def calls_def query_patterns_def)
next
  case True
  then have "member_queries (POST cfg e (Update (Some m))) = member_queries (handle_message cfg e m)"
    by (simp add: POST_def member_queries_def calls_def split: prod.splits option.splits)
  then show ?thesis
    by (simp add: mq_handle_message)
qed

text \<open>
  Claim C4, as stated: the membership query for the sender happens at most once per
  message. For \<^verbatim>\<open>/start\<close> sent in a group it happens twice.
\<close>

theorem sender_resolved_twice:
  "member_queries (POST demo_config demo_env (Update (Some (group_message 2 ''/start'' None))))
     = [GetChatMember (- 100) 2, GetChatMember (- 100) 2]"
  by code_simp

section \<open>The command router\<close>

lemma moderation_prefix_unknown:
  assumes "startsWith c p" and "p \<in> set moderation_commands"
  shows "c \<notin> set private_only_commands" and "c \<notin> set adminEventCommands"
    and "c \<noteq> ''/start''" and "c \<noteq> ''/verify''"
  using assms
  by (auto simp: startsWith_def moderation_commands_def private_only_commands_def adminEventCommands_def)

lemma moderation_command_slash: "p \<in> set moderation_commands \<Longrightarrow> startsWith p ''/''"
  by (auto simp: moderation_commands_def startsWith_def)

lemma moderation_not_admin:
  assumes "isUserAdmin e (chat_id (chat_of m)) (user_id (from_user m)) = (Some False, qs)"
  shows "moderation cfg e m body
         = (Some Next, if chat_type (chat_of m) \<noteq> Private \<and> startsWith body ''/'' then qs else [])"
  unfolding moderation_def assms and_then_Some
  by (simp add: ret_def)

text \<open>
  Claim C1. A message in a chat that is not private, whose sender's membership status is
  neither creator nor administrator and whose text starts with \<^verbatim>\<open>/ban\<close>, \<^verbatim>\<open>/mute\<close>,
  \<^verbatim>\<open>/unmute\<close> or \<^verbatim>\<open>/del\<close>, is handled with no reply and with no ban, restrict or
  delete-message call.
\<close>

theorem moderation_hidden_from_non_admins:
  assumes grp: "chat_type (chat_of m) \<noteq> Private"
    and body: "text_of m = Some body"
    and cmd: "\<exists>p \<in> set moderation_commands. startsWith body p"
    and role: "getChatMember e (chat_id (chat_of m)) (user_id (from_user m)) \<noteq> OkStatus ''creator''"
      "getChatMember e (chat_id (chat_of m)) (user_id (from_user m)) \<noteq> OkStatus ''administrator''"
  shows "filter is_reply (calls (POST cfg e (Update (Some m)))) = []
       \<and> filter is_moderation_mutation (calls (POST cfg e (Update (Some m)))) = []"
proof -
  let ?cid = "chat_id (chat_of m)" and ?uid = "user_id (from_user m)"
  let ?qs = "if ?cid > 0 then [] else [GetChatMember ?cid ?uid]"
  from cmd obtain p where p: "p \<in> set moderation_commands" and sp: "startsWith body p"
    by blast
  from p have nsp: "CHR '' '' \<notin> set p"
    by (auto simp: moderation_commands_def)
  have sc: "startsWith (command_of body) p"
    using sp nsp by (rule startsWith_command_of)
  note unk = moderation_prefix_unknown [OF sc p]
  have slash: "startsWith body ''/''"
    using sp moderation_command_slash [OF p] by (rule startsWith_trans)
  have ia: "isUserAdmin e ?cid ?uid = (Some False, ?qs)"
    using role by (rule isUserAdmin_not_admin)
  have md: "moderation cfg e m body = (Some Next, ?qs)"
    using grp slash by (simp add: moderation_not_admin [OF ia])
  have cm: "commands cfg e m body = (Some (), if ?cid < 0 then ?qs else [])"
    using unk grp ia by (rule commands_unknown)
  have hm: "snd (handle_message cfg e m) = ?qs @ (if ?cid < 0 then ?qs else [])"
    using slash by (simp add: handle_message_unfold [OF body md] cm)
  show ?thesis
    unfolding calls_POST hm by simp
qed

theorem moderation_hidden_from_non_admins_witness:
  "chat_type (chat_of (group_message 2 ''/ban spammer'' (Some (group_message 5 ''buy now'' None)))) \<noteq> Private
   \<and> startsWith ''/ban spammer'' ''/ban''
   \<and> getChatMember demo_env (- 100) 2 = OkStatus ''member''
   \<and> filter is_reply (calls (POST demo_config demo_env
        (Update (Some (group_message 2 ''/ban spammer'' (Some (group_message 5 ''buy now'' None))))))) = []
   \<and> filter is_moderation_mutation (calls (POST demo_config demo_env
        (Update (Some (group_message 2 ''/ban spammer'' (Some (group_message 5 ''buy now'' None))))))) = []"
proof -
  let ?m = "group_message 2 ''/ban spammer'' (Some (group_message 5 ''buy now'' None))"
  have g: "chat_type (chat_of ?m) \<noteq> Private"
    by (simp add: group_message_def)
  have b: "text_of ?m = Some ''/ban spammer''"
    by (simp add: group_message_def)
  have s: "startsWith ''/ban spammer'' ''/ban''"
    by (simp add: startsWith_def)
  then have c: "\<exists>p \<in> set moderation_commands. startsWith ''/ban spammer'' p"
    by (auto simp: moderation_commands_def)
  have r: "getChatMember demo_env (- 100) 2 = OkStatus ''member''"
    by (simp add: demo_env_def)
  have r1: "getChatMember demo_env (chat_id (chat_of ?m)) (user_id (from_user ?m)) \<noteq> OkStatus ''creator''"
    and r2: "getChatMember demo_env (chat_id (chat_of ?m)) (user_id (from_user ?m)) \<noteq> OkStatus ''administrator''"
    by (simp_all add: group_message_def demo_env_def)
  from moderation_hidden_from_non_admins [OF g b c r1 r2, of demo_config] g s r
  show ?thesis by simp
qed

subsection \<open>Private-only commands\<close>

lemma private_only_facts:
  assumes "c \<in> set private_only_commands"
  shows "c \<notin> set moderation_commands" and "startsWith c ''/''"
  using assms by (auto simp: private_only_commands_def moderation_commands_def startsWith_def)

lemma moderation_other_command:
  assumes "command_of body \<notin> set moderation_commands"
  shows "moderation cfg e m body
         = (Some Next,
            if chat_type (chat_of m) \<noteq> Private \<and> startsWith body ''/'' \<and> \<not> chat_id (chat_of m) > 0
            then [GetChatMember (chat_id (chat_of m)) (user_id (from_user m))] else [])"
proof -
  obtain b where b: "isUserAdmin e (chat_id (chat_of m)) (user_id (from_user m))
      = (Some b, if chat_id (chat_of m) > 0 then []
                 else [GetChatMember (chat_id (chat_of m)) (user_id (from_user m))])"
    using isUserAdmin_value by blast
  have sw: "and_then (moderation_switch cfg e m (command_of body) (args_of body)) (\<lambda>_. ret Next) = ret Next"
    by (simp only: moderation_switch_other [OF assms] and_then_ret)
  show ?thesis
    unfolding moderation_def b and_then_Some sw
    using assms by (simp add: ret_def)
qed

lemma redirect_value:
  assumes "truthy (TELEGRAM_BOT_TOKEN cfg)"
  shows "redirect cfg e m
         = (case getMe e of
              MeThrows \<Rightarrow> (None, [GetMe])
            | MeResult u \<Rightarrow> (Some Return, [GetMe, redirect_reply m u]))"
  using assms
  by (cases "getMe e")
     (simp_all add: redirect_def and_then_Some and_then_None sendMessage_def ret_def redirect_reply_def)

text \<open>
  Claim C5, amended. For a configured bot and a message in a chat that is not private
  whose command is \<^verbatim>\<open>/events\<close>, \<^verbatim>\<open>/ask\<close>, \<^verbatim>\<open>/asklive\<close> or \<^verbatim>\<open>/suggest\<close>, the calls are
  the membership query of the moderation gate (when the chat id is not positive), the
  \<^verbatim>\<open>getMe\<close> request and, when that request answers, the one redirect reply whose button
  links to \<^verbatim>\<open>https://t.me/\<close> followed by the bot's user name. The command's handler is
  never run: there is no datastore call. When \<^verbatim>\<open>getMe\<close> fails no reply is sent and the
  webhook answers 500; when it answers, the webhook answers 200.
\<close>

theorem private_only_redirected:
  assumes tok: "truthy (TELEGRAM_BOT_TOKEN cfg)"
    and grp: "chat_type (chat_of m) \<noteq> Private"
    and body: "text_of m = Some body"
    and cmd: "command_of body \<in> set private_only_commands"
  shows "calls (POST cfg e (Update (Some m)))
         = (if chat_id (chat_of m) > 0 then []
            else [GetChatMember (chat_id (chat_of m)) (user_id (from_user m))])
           @ GetMe # (case getMe e of MeThrows \<Rightarrow> [] | MeResult u \<Rightarrow> [redirect_reply m u])
       \<and> filter is_datastore_call (calls (POST cfg e (Update (Some m)))) = []
       \<and> filter is_reply (calls (POST cfg e (Update (Some m))))
           = (case getMe e of MeThrows \<Rightarrow> [] | MeResult u \<Rightarrow> [redirect_reply m u])
       \<and> fst (POST cfg e (Update (Some m)))
           = (case getMe e of
                MeThrows \<Rightarrow> Error_500 ''Error processing request'' | MeResult u \<Rightarrow> Ok_200)"
proof -
  let ?qs = "if chat_id (chat_of m) > 0 then []
             else [GetChatMember (chat_id (chat_of m)) (user_id (from_user m))]"
  note pf = private_only_facts [OF cmd]
  have slash: "startsWith body ''/''"
    using pf(2) by (rule command_of_startsWith)
  have md: "moderation cfg e m body = (Some Next, ?qs)"
    using grp slash by (simp add: moderation_other_command [OF pf(1)])
  have cm: "commands cfg e m body = and_then (redirect cfg e m) (\<lambda>_. ret ())"
    unfolding commands_def Let_def using grp cmd by simp
  have sc: "snd (commands cfg e m body)
            = GetMe # (case getMe e of MeThrows \<Rightarrow> [] | MeResult u \<Rightarrow> [redirect_reply m u])"
    unfolding cm redirect_value [OF tok]
    by (cases "getMe e") (simp_all add: and_then_Some and_then_None ret_def)
  have fc: "fst (commands cfg e m body)
            = (case getMe e of MeThrows \<Rightarrow> None | MeResult u \<Rightarrow> Some ())"
    unfolding cm redirect_value [OF tok]
    by (cases "getMe e") (simp_all add: and_then_Some and_then_None ret_def)
  have fh: "fst (handle_message cfg e m)
            = (case getMe e of MeThrows \<Rightarrow> None | MeResult u \<Rightarrow> Some ())"
    using slash by (simp add: handle_message_unfold [OF body md] fc)
  have r: "fst (POST cfg e (Update (Some m)))
           = (case getMe e of
                MeThrows \<Rightarrow> Error_500 ''Error processing request'' | MeResult u \<Rightarrow> Ok_200)"
    by (cases "getMe e") (simp_all add: POST_message [OF tok] fh)
  have hm: "snd (handle_message cfg e m)
            = ?qs @ GetMe # (case getMe e of MeThrows \<Rightarrow> [] | MeResult u \<Rightarrow> [redirect_reply m u])"
    using slash by (simp add: handle_message_unfold [OF body md] sc)
  have c: "calls (POST cfg e (Update (Some m)))
            = ?qs @ GetMe # (case getMe e of MeThrows \<Rightarrow> [] | MeResult u \<Rightarrow> [redirect_reply m u])"
    unfolding calls_POST hm using tok by simp
  show ?thesis
    unfolding c r by (cases "getMe e") (simp_all add: redirect_reply_def)
qed

theorem private_only_redirected_witness:
  "command_of ''/ask what is new'' \<in> set private_only_commands
   \<and> calls (POST demo_config demo_env (Update (Some (group_message 2 ''/ask what is new'' None))))
       = [GetChatMember (- 100) 2, GetMe,
          SendMessage (- 100) redirect_text (Some 7)
            (Some (UrlButton ''Chat with Aether Bot'' ''https://t.me/aether_bot''))]
   \<and> fst (POST demo_config demo_env (Update (Some (group_message 2 ''/ask what is new'' None))))
       = Ok_200"
proof -
  let ?m = "group_message 2 ''/ask what is new'' None"
  have t: "truthy (TELEGRAM_BOT_TOKEN demo_config)"
    by (simp add: demo_config_def truthy_def)
  have g: "chat_type (chat_of ?m) \<noteq> Private"
    by (simp add: group_message_def)
  have b: "text_of ?m = Some ''/ask what is new''"
    by (simp add: group_message_def)
  have c: "command_of ''/ask what is new'' \<in> set private_only_commands"
    by (simp add: command_of_def private_only_commands_def)
  have me: "getMe demo_env = MeResult (Some ''aether_bot'')"
    by (simp add: demo_env_def)
  from private_only_redirected [OF t g b c, of demo_env] c me
  show ?thesis
    by (simp add: group_message_def redirect_reply_def js_str_def)
qed

text \<open>
  Claim C5, as stated: exactly one redirect reply is sent for every such message. When
  the \<^verbatim>\<open>getMe\<close> request fails, the exception reaches the \<^verbatim>\<open>catch\<close> of \<^verbatim>\<open>POST\<close>: the answer
  is the 500 and no reply is sent.
\<close>

theorem redirect_lost_when_getMe_fails:
  "POST demo_config (demo_env\<lparr>getMe := MeThrows\<rparr>) (Update (Some (group_message 2 ''/events'' None)))
     = (Error_500 ''Error processing request'', [GetChatMember (- 100) 2, GetMe])"
  by code_simp

section \<open>Free text and the identity code\<close>

lemma alnum_not_hyphen: "is_alnum_i c \<Longrightarrow> c \<noteq> CHR ''-''"
  by (auto simp: is_alnum_i_def upper_letters_def lower_letters_def is_digit_def digit_chars_def)

lemma aether_at_shape:
  assumes up: "ascii_upper aeth = ''AETH''"
    and hy: "hy = [] \<or> hy = ''-''"
    and len: "4 \<le> length code"
    and al: "list_all is_alnum_i code"
  shows "aether_at (aeth @ hy @ code @ post)"
proof -
  have "length (ascii_upper aeth) = length aeth"
    by (simp add: ascii_upper_def)
  with up have "length aeth = 4" by simp
  then obtain a e t h where aeth: "aeth = [a, e, t, h]"
    by (auto simp: length_Suc_conv numeral_eq_Suc)
  from up aeth have ch: "upper_char a = CHR ''A''" "upper_char e = CHR ''E''"
    "upper_char t = CHR ''T''" "upper_char h = CHR ''H''"
    by (simp_all add: ascii_upper_def)
  from al have all: "\<forall>c \<in> set code. is_alnum_i c"
    by (simp add: list_all_iff)
  then have tw: "takeWhile is_alnum_i (code @ post) = code @ takeWhile is_alnum_i post"
    by (intro takeWhile_append2) auto
  from len obtain c cs where code: "code = c # cs"
    by (cases code) auto
  with all have nh: "c \<noteq> CHR ''-''"
    by (auto dest: alnum_not_hyphen)
  have l: "4 \<le> length (takeWhile is_alnum_i (code @ post))"
    unfolding tw using len by simp
  from hy show ?thesis
  proof
    assume h0: "hy = []"
    have "aether_at ([a, e, t, h] @ c # cs @ post)"
      using l nh ch unfolding code by (simp add: aether_at_def)
    with h0 show ?thesis
      by (simp add: aeth code)
  next
    assume h1: "hy = ''-''"
    have "aether_at ([a, e, t, h] @ CHR ''-'' # code @ post)"
      using l ch by (simp add: aether_at_def)
    with h1 show ?thesis
      by (simp add: aeth)
  qed
qed

lemma aether_at_test: "aether_at s \<Longrightarrow> aether_test s"
  by (cases s) (simp_all add: aether_at_def)

lemma aether_test_append: "aether_test s \<Longrightarrow> aether_test (pre @ s)"
  by (induction pre) simp_all

lemma aether_test_nonempty: "aether_test s \<Longrightarrow> s \<noteq> []"
  by auto

lemma ds_sendMessage: "filter is_datastore_call (snd (sendMessage cfg c t r k)) = []"
  by (simp add: sendMessage_def ret_def)

lemma verifyMember_value:
  "\<exists>r. verifyMember cfg e a
         = (Some r, if members_configured cfg
                    then [AirtableSelect (env_string (AIRTABLE_MEMBERS_TABLE_ID cfg)) (member_query e a)]
                    else [])"
  by (simp add: verifyMember_def members_configured_def member_query_def ret_def Let_def)

lemma invite_step:
  "\<exists>k. (if truthy (TELEGRAM_GROUP_CHAT_ID cfg) then
               and_then (createInviteLink e (env_string (TELEGRAM_GROUP_CHAT_ID cfg))) (\<lambda>inviteLink.
               ret (if truthy inviteLink
                    then Some (UrlButton ''Join the Community Group'' (env_string inviteLink))
                    else None))
             else ret None)
        = (Some k, if truthy (TELEGRAM_GROUP_CHAT_ID cfg)
                   then [CreateChatInviteLink (env_string (TELEGRAM_GROUP_CHAT_ID cfg)) 1 (now_seconds e + 86400)]
                   else [])"
  by (simp add: createInviteLink_def and_then_Some ret_def)

lemma handleVerification_free_text:
  assumes "aether_test body"
  shows "fst (handleVerification cfg e c (Some body)) = Some ()
       \<and> filter is_datastore_call (snd (handleVerification cfg e c (Some body)))
           = (if members_configured cfg
              then [AirtableSelect (env_string (AIRTABLE_MEMBERS_TABLE_ID cfg)) (member_query e body)]
              else [])"
proof -
  from assms have ne: "body \<noteq> []" by auto
  obtain r where r: "verifyMember cfg e body
         = (Some r, if members_configured cfg
                    then [AirtableSelect (env_string (AIRTABLE_MEMBERS_TABLE_ID cfg)) (member_query e body)]
                    else [])"
    using verifyMember_value by blast
  obtain k where k: "(if truthy (TELEGRAM_GROUP_CHAT_ID cfg) then
               and_then (createInviteLink e (env_string (TELEGRAM_GROUP_CHAT_ID cfg))) (\<lambda>inviteLink.
               ret (if truthy inviteLink
                    then Some (UrlButton ''Join the Community Group'' (env_string inviteLink))
                    else None))
             else ret None)
        = (Some k, if truthy (TELEGRAM_GROUP_CHAT_ID cfg)
                   then [CreateChatInviteLink (env_string (TELEGRAM_GROUP_CHAT_ID cfg)) 1 (now_seconds e + 86400)]
                   else [])"
    using invite_step by blast
  have hv: "handleVerification cfg e c (Some body)
      = and_then (verifyMember cfg e body) (\<lambda>result.
        if verified result \<and> truthy (fullName result) then
          and_then
            (if truthy (TELEGRAM_GROUP_CHAT_ID cfg) then
               and_then (createInviteLink e (env_string (TELEGRAM_GROUP_CHAT_ID cfg))) (\<lambda>inviteLink.
               ret (if truthy inviteLink
                    then Some (UrlButton ''Join the Community Group'' (env_string inviteLink))
                    else None))
             else ret None) (\<lambda>replyMarkup.
          sendMessage cfg c (successMessage (env_string (fullName result))) None replyMarkup)
        else sendMessage cfg c failureMessage None None)"
    using assms ne by (simp add: handleVerification_def truthy_def env_string_def)
  show ?thesis
    unfolding hv r k and_then_Some
    by (simp add: fst_sendMessage ds_sendMessage)
qed

text \<open>
  Claim C10. For a configured bot and a text that does not start with a slash and is not
  the admin phrase (compared as the handler compares it, upper-cased), if the text
  contains anywhere the letters AETH in any case, an optional hyphen and four or more
  letters or digits, then the message is handled by the verification handler on the
  whole text, and the member lookup (made when the members table is configured)
  compares the stored codes with the whole text, upper-cased.
\<close>

theorem free_text_identity_code:
  assumes tok: "truthy (TELEGRAM_BOT_TOKEN cfg)"
    and body: "text_of m = Some body"
    and ns: "\<not> startsWith body ''/''"
    and na: "\<not> (truthy (TELEGRAM_ADMIN_ID cfg)
                \<and> toUpperCase e body = toUpperCase e (env_string (TELEGRAM_ADMIN_ID cfg)))"
    and shape: "body = pre @ aeth @ hy @ code @ post"
    and up: "ascii_upper aeth = ''AETH''"
    and hy: "hy = [] \<or> hy = ''-''"
    and len: "4 \<le> length code"
    and al: "list_all is_alnum_i code"
  shows "POST cfg e (Update (Some m))
           = (Ok_200, calls (handleVerification cfg e (chat_id (chat_of m)) (Some body)))
       \<and> filter is_datastore_call (calls (POST cfg e (Update (Some m))))
           = (if members_configured cfg
              then [AirtableSelect (env_string (AIRTABLE_MEMBERS_TABLE_ID cfg))
                      \<lparr>filterByFormula = Some (''UPPER({aetherId}) = '' @ [dquote] @ toUpperCase e body @ [dquote]),
                       maxRecords = Some 1, sort_by = []\<rparr>]
              else [])"
proof -
  have at: "aether_test body"
    unfolding shape using aether_at_shape [OF up hy len al] 
    by (intro aether_test_append aether_at_test)
  note hv = handleVerification_free_text [OF at, of cfg e "chat_id (chat_of m)"]
  have md: "moderation cfg e m body = (Some Next, [])"
    using ns by (simp add: moderation_def ret_def)
  have ft: "free_text cfg e m body = handleVerification cfg e (chat_id (chat_of m)) (Some body)"
    using na at by (auto simp: free_text_def)
  have hm: "handle_message cfg e m = handleVerification cfg e (chat_id (chat_of m)) (Some body)"
    using ns by (simp add: handle_message_unfold [OF body md] ft)
  have p: "POST cfg e (Update (Some m))
           = (Ok_200, calls (handleVerification cfg e (chat_id (chat_of m)) (Some body)))"
    using hv by (simp add: POST_message [OF tok] hm calls_def)
  show ?thesis
    unfolding p using hv by (simp add: calls_def member_query_def member_formula_def)
qed

theorem free_text_identity_code_witness:
  "''my id is aeth-ab12 ok'' = ''my id is '' @ ''aeth'' @ ''-'' @ ''ab12'' @ '' ok''
   \<and> ascii_upper ''aeth'' = ''AETH'' \<and> list_all is_alnum_i ''ab12''
   \<and> filter is_datastore_call (calls (POST demo_config demo_env
         (Update (Some (private_message 5 ''my id is aeth-ab12 ok'')))))
       = [AirtableSelect ''members''
            \<lparr>filterByFormula = Some (''UPPER({aetherId}) = '' @ [dquote] @ ''MY ID IS AETH-AB12 OK'' @ [dquote]),
             maxRecords = Some 1, sort_by = []\<rparr>]"
proof -
  let ?m = "private_message 5 ''my id is aeth-ab12 ok''"
  have t: "truthy (TELEGRAM_BOT_TOKEN demo_config)"
    by (simp add: demo_config_def truthy_def)
  have b: "text_of ?m = Some ''my id is aeth-ab12 ok''"
    by (simp add: private_message_def)
  have ns: "\<not> startsWith ''my id is aeth-ab12 ok'' ''/''"
    by (simp add: startsWith_def)
  have u: "toUpperCase demo_env ''my id is aeth-ab12 ok'' = ''MY ID IS AETH-AB12 OK''"
    by code_simp
  have u2: "toUpperCase demo_env ''42'' = ''42''"
    by code_simp
  have na: "\<not> (truthy (TELEGRAM_ADMIN_ID demo_config)
        \<and> toUpperCase demo_env ''my id is aeth-ab12 ok''
            = toUpperCase demo_env (env_string (TELEGRAM_ADMIN_ID demo_config)))"
    by (simp add: u u2 demo_config_def env_string_def)
  have sh: "''my id is aeth-ab12 ok'' = ''my id is '' @ ''aeth'' @ ''-'' @ ''ab12'' @ '' ok''"
    by simp
  have up: "ascii_upper ''aeth'' = ''AETH''"
    by code_simp
  have hy: "''-'' = [] \<or> ''-'' = ''-''"
    by simp
  have len: "4 \<le> length ''ab12''"
    by simp
  have al: "list_all is_alnum_i ''ab12''"
    by code_simp
  have mc: "members_configured demo_config"
    by (simp add: members_configured_def getAirtableBase_def demo_config_def truthy_def)
  have tbl: "env_string (AIRTABLE_MEMBERS_TABLE_ID demo_config) = ''members''"
    by (simp add: demo_config_def env_string_def)
  note th = free_text_identity_code [OF t b ns na sh up hy len al]
  from th have "filter is_datastore_call (calls (POST demo_config demo_env (Update (Some ?m))))
           = (if members_configured demo_config
              then [AirtableSelect (env_string (AIRTABLE_MEMBERS_TABLE_ID demo_config))
                      \<lparr>filterByFormula = Some (''UPPER({aetherId}) = '' @ [dquote]
                          @ toUpperCase demo_env ''my id is aeth-ab12 ok'' @ [dquote]),
                       maxRecords = Some 1, sort_by = []\<rparr>]
              else [])"
    by (rule conjunct2)
  then have ds: "filter is_datastore_call (calls (POST demo_config demo_env (Update (Some ?m))))
       = [AirtableSelect ''members''
            \<lparr>filterByFormula = Some (''UPPER({aetherId}) = '' @ [dquote] @ ''MY ID IS AETH-AB12 OK'' @ [dquote]),
             maxRecords = Some 1, sort_by = []\<rparr>]"
    unfolding tbl u using mc by (simp only: if_True)
  show ?thesis
  proof (intro conjI)
    show "''my id is aeth-ab12 ok'' = ''my id is '' @ ''aeth'' @ ''-'' @ ''ab12'' @ '' ok''"
      by (rule sh)
    show "ascii_upper ''aeth'' = ''AETH''"
      by (rule up)
    show "list_all is_alnum_i ''ab12''"
      by (rule al)
    show "filter is_datastore_call (calls (POST demo_config demo_env (Update (Some ?m))))
       = [AirtableSelect ''members''
            \<lparr>filterByFormula = Some (''UPPER({aetherId}) = '' @ [dquote] @ ''MY ID IS AETH-AB12 OK'' @ [dquote]),
             maxRecords = Some 1, sort_by = []\<rparr>]"
      by (rule ds)
  qed
qed

section \<open>Muting\<close>

lemma mute_switch:
  assumes rp: "reply_to_message m = Some r"
    and tg: "fst (isUserAdmin e (chat_id (chat_of m)) (user_id (from_user r))) = Some False"
    and ng: "\<not> chat_id (chat_of m) > 0"
    and tok: "truthy (TELEGRAM_BOT_TOKEN cfg)"
  shows "moderation_switch cfg e m ''/mute'' as
         = (case first_arg as of
              None \<Rightarrow> (None, [GetChatMember (chat_id (chat_of m)) (user_id (from_user r))])
            | Some a0 \<Rightarrow>
                if positive (parseMuteDuration a0)
                then and_then (Some (), [GetChatMember (chat_id (chat_of m)) (user_id (from_user r))])
                       (\<lambda>_. muteUser cfg e (chat_id (chat_of m)) (user_id (from_user r))
                               (parseMuteDuration a0) (join_space (drop 1 as)))
                else (Some (), [GetChatMember (chat_id (chat_of m)) (user_id (from_user r)),
                                SendMessage (chat_id (chat_of m)) invalid_duration_text
                                  (if message_id m = 0 then None else Some (message_id m)) None]))"
proof -
  note ia = isUserAdmin_False [OF tg ng]
  show ?thesis
    using tok
    by (cases "first_arg as")
       (simp_all add: moderation_switch_def Let_def rp ia and_then_Some throw_def sendMessage_def
          invalid_duration_text_def)
qed

text \<open>
  \<^verbatim>\<open>/mute\<close> by an administrator in reply to a user who is none: with no argument the
  handler ends in the 500 after the two membership queries; with an argument for which
  \<^verbatim>\<open>parseMuteDuration\<close> gives no positive number it sends the invalid-duration reply. In
  both cases there is no restrict call.
\<close>

lemma mute_invalid_duration:
  assumes tok: "truthy (TELEGRAM_BOT_TOKEN cfg)"
    and grp: "chat_type (chat_of m) \<noteq> Private"
    and body: "text_of m = Some body"
    and cmd: "command_of body = ''/mute''"
    and rp: "reply_to_message m = Some r"
    and sa: "fst (isUserAdmin e (chat_id (chat_of m)) (user_id (from_user m))) = Some True"
    and tg: "fst (isUserAdmin e (chat_id (chat_of m)) (user_id (from_user r))) = Some False"
  shows "first_arg (args_of body) = None \<Longrightarrow>
           POST cfg e (Update (Some m))
             = (Error_500 ''Error processing request'',
                [GetChatMember (chat_id (chat_of m)) (user_id (from_user m)),
                 GetChatMember (chat_id (chat_of m)) (user_id (from_user r))])"
    and "first_arg (args_of body) = Some a \<Longrightarrow> \<not> positive (parseMuteDuration a) \<Longrightarrow>
           POST cfg e (Update (Some m))
             = (Ok_200,
                [GetChatMember (chat_id (chat_of m)) (user_id (from_user m)),
                 GetChatMember (chat_id (chat_of m)) (user_id (from_user r)),
                 SendMessage (chat_id (chat_of m)) invalid_duration_text
                   (if message_id m = 0 then None else Some (message_id m)) None]
                @ (if chat_id (chat_of m) < 0
                   then [GetChatMember (chat_id (chat_of m)) (user_id (from_user m))] else []))"
proof -
  let ?s = "GetChatMember (chat_id (chat_of m)) (user_id (from_user m))"
  let ?t = "GetChatMember (chat_id (chat_of m)) (user_id (from_user r))"
  note ng = isUserAdmin_True_group [OF sa]
  note ia = isUserAdmin_True [OF sa]
  note ms = mute_switch [OF rp tg ng tok, of "args_of body"]
  have "startsWith ''/mute'' ''/''"
    by (simp add: startsWith_def)
  then have slash: "startsWith body ''/''"
    using cmd command_of_startsWith [of body "''/''"] by simp
  have md: "moderation cfg e m body
      = and_then (Some True, [?s]) (\<lambda>isAdmin.
          and_then (moderation_switch cfg e m ''/mute'' (args_of body)) (\<lambda>_. ret Next))"
    using grp slash by (simp add: moderation_def ia cmd rp and_then_Some)
  {
    assume none: "first_arg (args_of body) = None"
    have "moderation cfg e m body = (None, [?s, ?t])"
      unfolding md ms none by (simp add: and_then_Some and_then_None)
    then have "handle_message cfg e m = (None, [?s, ?t])"
      by (simp add: handle_message_def body and_then_None)
    then show "POST cfg e (Update (Some m)) = (Error_500 ''Error processing request'', [?s, ?t])"
      by (simp add: POST_message [OF tok])
  }
  {
    assume some: "first_arg (args_of body) = Some a" and inv: "\<not> positive (parseMuteDuration a)"
    let ?r = "SendMessage (chat_id (chat_of m)) invalid_duration_text
                   (if message_id m = 0 then None else Some (message_id m)) None"
    have m2: "moderation cfg e m body = (Some Next, [?s, ?t, ?r])"
      unfolding md ms some using inv by (simp add: and_then_Some ret_def)
    have unk: "command_of body \<notin> set private_only_commands"
      "command_of body \<notin> set adminEventCommands"
      "command_of body \<noteq> ''/start''" "command_of body \<noteq> ''/verify''"
      by (simp_all add: cmd private_only_commands_def adminEventCommands_def)
    have cm: "commands cfg e m body = (Some (), if chat_id (chat_of m) < 0 then [?s] else [])"
      using unk grp ia by (rule commands_unknown)
    have "handle_message cfg e m
        = (Some (), [?s, ?t, ?r] @ (if chat_id (chat_of m) < 0 then [?s] else []))"
      using slash by (simp add: handle_message_unfold [OF body m2] cm)
    then show "POST cfg e (Update (Some m))
        = (Ok_200, [?s, ?t, ?r] @ (if chat_id (chat_of m) < 0 then [?s] else []))"
      by (simp add: POST_message [OF tok])
  }
qed

text \<open>
  Claim C2. \<^verbatim>\<open>/mute\<close> with no duration argument is claimed to be answered with the
  invalid-duration reply. The source evaluates \<^verbatim>\<open>parseMuteDuration(args[0])\<close> with
  \<^verbatim>\<open>args[0]\<close> undefined, \<^verbatim>\<open>undefined.match\<close> throws, and \<^verbatim>\<open>POST\<close> answers 500 without any
  reply (and without a restrict call).
\<close>

theorem mute_without_duration:
  "POST demo_config demo_env
     (Update (Some (group_message 1 ''/mute'' (Some (group_message 2 ''spam'' None)))))
     = (Error_500 ''Error processing request'',
        [GetChatMember (- 100) 1, GetChatMember (- 100) 2])"
  by code_simp

end
